theory Spec2Isabelle
  imports Main "HOL-Library.FSet"
begin

section \<open>Data model of the ROLIE checker (cmd/csaf\_checker/roliecheck.go)\<close>

subsection \<open>TLP labels\<close>

text \<open>
  Modelled from the spec: the declaration of \<^verbatim>\<open>csaf.TLPLabel\<close> and of its five constants is
  in package \<^verbatim>\<open>csaf\<close>, which is not among the sources. The spec (section 3) names the five
  values Unlabeled, White, Green, Amber, Red; the source formats a label with \<^verbatim>\<open>TLP:%s\<close> and
  switches on it with a \<^verbatim>\<open>default\<close> branch, so a label is a string that may also hold a value
  outside the five. The theorems below use of the five constants only that they are
  pairwise different.
\<close>

type_synonym TLPLabel = string

definition TLPLabelUnlabeled :: TLPLabel where "TLPLabelUnlabeled = ''UNLABELED''"
definition TLPLabelWhite :: TLPLabel where "TLPLabelWhite = ''WHITE''"
definition TLPLabelGreen :: TLPLabel where "TLPLabelGreen = ''GREEN''"
definition TLPLabelAmber :: TLPLabel where "TLPLabelAmber = ''AMBER''"
definition TLPLabelRed :: TLPLabel where "TLPLabelRed = ''RED''"

text \<open>\<^verbatim>\<open>func tlpLevel(label csaf.TLPLabel) int\<close>: the switch, case by case, in its order.\<close>

definition tlpLevel :: "TLPLabel \<Rightarrow> int" where
  "tlpLevel label =
     (if label = TLPLabelWhite then 1
      else if label = TLPLabelGreen then 2
      else if label = TLPLabelAmber then 3
      else if label = TLPLabelRed then 4
      else 0)"

text \<open>\<^verbatim>\<open>func tlpLabel(label *csaf.TLPLabel) csaf.TLPLabel\<close>: a nil pointer is \<open>None\<close>.\<close>

definition tlpLabel :: "TLPLabel option \<Rightarrow> TLPLabel" where
  "tlpLabel label = (case label of Some l \<Rightarrow> l | None \<Rightarrow> TLPLabelUnlabeled)"

subsection \<open>Issue sinks\<close>

text \<open>
  Errors are values. \<^verbatim>\<open>errContinue\<close> is the sentinel of package main that the source compares
  errors with; every other error is \<open>OtherError\<close> with its text.
\<close>

datatype error = errContinue | OtherError string

text \<open>
  Modelled from the spec: the issue sinks (\<^verbatim>\<open>topicMessages\<close>, the type of
  \<^verbatim>\<open>p.badROLIEfeed\<close>, \<^verbatim>\<open>p.badProviderMetadata\<close> and \<^verbatim>\<open>p.badROLIEservice\<close>) are declared outside the
  sources. The spec (section 6) gives each sink \<^verbatim>\<open>info\<close>, \<^verbatim>\<open>warn\<close> and \<^verbatim>\<open>error\<close>, whose
  only effect is the recorded diagnostic. A diagnostic is kept as the severity, the format
  string and the arguments of the call, in the order of the call; the rendering of the text
  (\<^verbatim>\<open>fmt.Sprintf\<close>) is not modelled. A sink is a Go slice: \<open>None\<close> is the nil slice of a
  topic never used, and \<^verbatim>\<open>use\<close> turns it into an empty one.
\<close>

datatype MessageType = InfoType | WarnType | ErrorType

datatype arg = ArgString string | ArgError error | ArgInt int | ArgStrings "string list"

datatype Message = Message (Type: MessageType) (Format: string) (Args: "arg list")

type_synonym topicMessages = "Message list option"

definition messages :: "topicMessages \<Rightarrow> Message list" where
  "messages m = (case m of None \<Rightarrow> [] | Some ms \<Rightarrow> ms)"

definition topicMessages_add :: "topicMessages \<Rightarrow> MessageType \<Rightarrow> string \<Rightarrow> arg list \<Rightarrow> topicMessages" where
  "topicMessages_add m typ format args = Some (messages m @ [Message typ format args])"

definition topicMessages_info :: "topicMessages \<Rightarrow> string \<Rightarrow> arg list \<Rightarrow> topicMessages" where
  "topicMessages_info m format args = topicMessages_add m InfoType format args"

definition topicMessages_warn :: "topicMessages \<Rightarrow> string \<Rightarrow> arg list \<Rightarrow> topicMessages" where
  "topicMessages_warn m format args = topicMessages_add m WarnType format args"

definition topicMessages_error :: "topicMessages \<Rightarrow> string \<Rightarrow> arg list \<Rightarrow> topicMessages" where
  "topicMessages_error m format args = topicMessages_add m ErrorType format args"

definition topicMessages_use :: "topicMessages \<Rightarrow> topicMessages" where
  "topicMessages_use m = (case m of None \<Rightarrow> Some [] | Some ms \<Rightarrow> Some ms)"

subsection \<open>The label checker and the processor\<close>

text \<open>
  \<^verbatim>\<open>type rolieLabelChecker struct\<close>. The field \<^verbatim>\<open>advisories\<close> is a Go map from labels to
  sets of URLs (\<^verbatim>\<open>map[string]struct{}\<close>): a label with no entry (the inner map is nil) is
  \<open>None\<close>, an inner map is the finite set of its keys. The outer map is the one allocated at
  the only place of the source that builds a checker (phase 2 of \<^verbatim>\<open>processROLIEFeeds\<close>).
\<close>

record rolieLabelChecker =
  feedURL :: string
  feedLabel :: TLPLabel
  advisories :: "TLPLabel \<rightharpoonup> string fset"

text \<open>
  The fields of \<^verbatim>\<open>processor\<close> that the source reads or writes. The struct is declared
  outside the sources; its other fields are the extension of the record, which the
  collaborators may read and write. \<^verbatim>\<open>labelChecker\<close> is a pointer: \<open>None\<close> is nil.
\<close>

record processor =
  pmdURL :: string
  badProviderMetadata :: topicMessages
  badROLIEfeed :: topicMessages
  badROLIEservice :: topicMessages
  labelChecker :: "rolieLabelChecker option"

text \<open>The keys of a Go map used as a set; ranging over a nil map finds no key.\<close>

definition keys :: "'k fset option \<Rightarrow> 'k fset" where
  "keys m = (case m of None \<Rightarrow> {||} | Some s \<Rightarrow> s)"

text \<open>
  \<^verbatim>\<open>func (ca *rolieLabelChecker) check(p *processor, advisoryLabel, advisory)\<close>. The checker
  and the processor are both mutated through their pointers, so both are returned.
\<close>

definition check ::
  "rolieLabelChecker \<Rightarrow> 'p processor_scheme \<Rightarrow> TLPLabel \<Rightarrow> string
     \<Rightarrow> rolieLabelChecker \<times> 'p processor_scheme" where
  "check ca p advisoryLabel advisory =
     (let advisoryRank = tlpLevel advisoryLabel;
          feedRank = tlpLevel (feedLabel ca);
          advs = keys (advisories ca advisoryLabel);
          ca' = ca\<lparr>advisories := (advisories ca)(advisoryLabel \<mapsto> finsert advisory advs)\<rparr>
      in if advisoryRank < feedRank then
           (if advisoryRank = 0 then
              (ca', p\<lparr>badROLIEfeed := topicMessages_info (badROLIEfeed p)
                  ''Found unlabeled advisory %q in feed %q.''
                  [ArgString advisory, ArgString (feedURL ca)]\<rparr>)
            else
              (ca', p\<lparr>badROLIEfeed := topicMessages_warn (badROLIEfeed p)
                  ''Found advisory %q labled TLP:%s in feed %q (TLP:%s).''
                  [ArgString advisory, ArgString advisoryLabel,
                   ArgString (feedURL ca), ArgString (feedLabel ca)]\<rparr>))
         else if advisoryRank > feedRank then
           (ca', p\<lparr>badROLIEfeed := topicMessages_error (badROLIEfeed p)
               ''%s of TLP level %s must not be listed in feed %s of TLP level %s''
               [ArgString advisory, ArgString advisoryLabel,
                ArgString (feedURL ca), ArgString (feedLabel ca)]\<rparr>)
         else (ca', p))"

subsection \<open>Set helpers\<close>

text \<open>
  \<^verbatim>\<open>func containsAllKeys(m1, m2 map[K]V) bool\<close>: the loop returns false at the first key of
  \<open>m1\<close> that \<open>m2\<close> lacks, and true when there is none.
\<close>

definition containsAllKeys :: "'k fset option \<Rightarrow> 'k fset option \<Rightarrow> bool" where
  "containsAllKeys m1 m2 = fBall (keys m1) (\<lambda>k. k |\<in>| keys m2)"

text \<open>\<^verbatim>\<open>func containsAllSS(slice []string, str string) bool\<close>.\<close>

fun containsAllSS :: "string list \<Rightarrow> string \<Rightarrow> bool" where
  "containsAllSS [] str = False"
| "containsAllSS (e # slice) str = (if e = str then True else containsAllSS slice str)"

text \<open>
  One loop of \<^verbatim>\<open>sameContentsSS\<close>: every element of the first slice that the other slice does
  not contain is appended to the result \<open>m\<close>.
\<close>

fun appendMissing :: "string list \<Rightarrow> string list \<Rightarrow> string list \<Rightarrow> string list" where
  "appendMissing [] other m = m"
| "appendMissing (e # rest) other m =
     appendMissing rest other (if \<not> containsAllSS other e then m @ [e] else m)"

text \<open>\<^verbatim>\<open>func sameContentsSS(slice1 []string, slice2 []string) ([]string, []string)\<close>.\<close>

definition sameContentsSS :: "string list \<Rightarrow> string list \<Rightarrow> string list \<times> string list" where
  "sameContentsSS slice1 slice2 =
     (let m1 = appendMissing slice1 slice2 [];
          m2 = appendMissing slice2 slice1 []
      in (m1, m2))"

subsection \<open>Feeds, advisory files and the service document\<close>

text \<open>
  Modelled from the spec: \<^verbatim>\<open>csaf.Feed\<close>, \<^verbatim>\<open>csaf.AdvisoryFile\<close> and
  \<^verbatim>\<open>csaf.ROLIEServiceDocument\<close> are declared in package \<^verbatim>\<open>csaf\<close>, outside the sources. A feed
  (spec, section 3) has a URL and an optional declared label; the source reads both through
  pointers (\<^verbatim>\<open>feed.URL == nil\<close>, \<^verbatim>\<open>*feed.URL\<close>, \<^verbatim>\<open>tlpLabel(feed.TLPLabel)\<close>), so both are
  options. Of an advisory file the source uses its \<^verbatim>\<open>URL()\<close> only; of the service document
  the path \<^verbatim>\<open>Service.Workspace[..].Collection[..].HRef\<close>.
\<close>

type_synonym JSONURL = string

record Feed =
  URL :: "JSONURL option"
  TLPLabel :: "TLPLabel option"

record AdvisoryFile =
  AdvisoryFile_URL :: string

record ROLIEServiceWorkspaceCollection =
  HRef :: string

record ROLIEServiceWorkspace =
  Collection :: "ROLIEServiceWorkspaceCollection list"

record ROLIEService =
  Workspace :: "ROLIEServiceWorkspace list"

record ROLIEServiceDocument =
  Service :: ROLIEService

text \<open>The fields of \<^verbatim>\<open>http.Response\<close> that \<^verbatim>\<open>serviceCheck\<close> reads.\<close>

record http_Response =
  StatusCode :: int
  Status :: string
  Body :: string

definition http_StatusOK :: int where "http_StatusOK = 200"

subsection \<open>Collaborators\<close>

text \<open>
  The functions the source calls and does not define: the standard library's \<^verbatim>\<open>net/url\<close>
  (\<^verbatim>\<open>url.Parse\<close>, \<^verbatim>\<open>ResolveReference\<close>, \<^verbatim>\<open>String\<close>) over a type \<open>'u\<close> of parsed URLs,
  \<^verbatim>\<open>util.BaseURL\<close>, and of package main \<^verbatim>\<open>makeAbsolute\<close>, \<^verbatim>\<open>p.checkTLS\<close>,
  \<^verbatim>\<open>p.rolieFeedEntries\<close>, \<^verbatim>\<open>p.integrity\<close> (called with the constant mask \<^verbatim>\<open>rolieMask\<close> and the
  logger \<^verbatim>\<open>p.badProviderMetadata.add\<close>), \<^verbatim>\<open>p.httpClient().Get\<close> and
  \<^verbatim>\<open>csaf.LoadROLIEServiceDocument\<close>. They are parameters of the model. A method of the
  processor takes the processor's state \<open>'p\<close> and returns the new one; a Go result
  \<^verbatim>\<open>(value, err)\<close> with a non-nil error is \<open>Inl err\<close>. A nil slice of advisory files is
  \<open>None\<close>. The collaborators are taken to return; a panic inside one is not modelled.
\<close>

record ('u, 'p) collaborators =
  url_Parse :: "string \<Rightarrow> error + 'u"
  url_ResolveReference :: "'u \<Rightarrow> 'u \<Rightarrow> 'u"
  url_String :: "'u \<Rightarrow> string"
  util_BaseURL :: "'u \<Rightarrow> error + string"
  makeAbsolute :: "'u \<Rightarrow> 'u \<Rightarrow> 'u"
  checkTLS :: "string \<Rightarrow> 'p \<Rightarrow> 'p"
  rolieFeedEntries :: "string \<Rightarrow> 'p \<Rightarrow> (error + AdvisoryFile list option) \<times> 'p"
  integrity :: "AdvisoryFile list \<Rightarrow> string \<Rightarrow> 'p \<Rightarrow> error option \<times> 'p"
  httpClient_Get :: "string \<Rightarrow> 'p \<Rightarrow> (error + http_Response) \<times> 'p"
  LoadROLIEServiceDocument :: "string \<Rightarrow> error + ROLIEServiceDocument"

subsection \<open>Control flow\<close>

text \<open>
  One pass of a loop body either goes on to the next element (it ended, or it ran
  \<^verbatim>\<open>continue\<close>), or returns from the function with an error, or panics (a nil pointer is
  dereferenced). The state is kept in each case: the processor is mutated in place.
\<close>

datatype ('s, 'r) step = Next 's | Return 'r 's | Panic 's

fun forEach :: "('a \<Rightarrow> 's \<Rightarrow> ('s, 'r) step) \<Rightarrow> 'a list \<Rightarrow> 's \<Rightarrow> ('s, 'r) step" where
  "forEach body [] s = Next s"
| "forEach body (x # xs) s =
     (case body x s of
        Next s' \<Rightarrow> forEach body xs s'
      | Return r s' \<Rightarrow> Return r s'
      | Panic s' \<Rightarrow> Panic s')"

text \<open>How a function ends: it returns its result, or it panics.\<close>

datatype 'r outcome = Returned 'r | Panicked

text \<open>
  \<^verbatim>\<open>feed := &fs[i]\<close> is the key of the map of fetched advisories. The pointer to element
  \<open>i\<close> of the \<open>j\<close>-th slice is the pair \<open>(j, i)\<close>; the slices of \<^verbatim>\<open>feeds\<close> are taken not to
  share their storage. \<open>feedRefs\<close> lists the pointers with their feeds in the order in
  which the nested loops \<^verbatim>\<open>for _, fs := range feeds { for i := range fs {\<close> visit them.
\<close>

type_synonym feedRef = "nat \<times> nat"

definition feedRefs :: "Feed list list \<Rightarrow> (feedRef \<times> Feed) list" where
  "feedRefs feeds =
     concat (map (\<lambda>(j, fs). map (\<lambda>(i, feed). ((j, i), feed)) (enumerate 0 fs))
       (enumerate 0 feeds))"

text \<open>
  The nested loops over \<^verbatim>\<open>feeds\<close> with the body \<open>body\<close>, which gets the pointer and the
  feed.
\<close>

definition forEachFeed ::
  "(feedRef \<Rightarrow> Feed \<Rightarrow> 's \<Rightarrow> ('s, 'r) step) \<Rightarrow> Feed list list \<Rightarrow> 's \<Rightarrow> ('s, 'r) step" where
  "forEachFeed body feeds =
     forEach (\<lambda>(j, fs). forEach (\<lambda>(i, feed). body (j, i) feed) (enumerate 0 fs))
       (enumerate 0 feeds)"

section \<open>processROLIEFeeds\<close>

text \<open>
  The map \<^verbatim>\<open>advisories := map[*csaf.Feed][]csaf.AdvisoryFile{}\<close> of phase 1, called
  \<open>fetched\<close> here (the record field \<open>advisories\<close> is the checker's). A lookup of a feed
  that was never stored gives the nil slice, as does a stored nil slice.
\<close>

type_synonym fetched = "feedRef \<Rightarrow> AdvisoryFile list option"

text \<open>Phase 1, the body of the inner loop (lines 112 to 132).\<close>

definition phase1_feed ::
  "('u, 'x processor_scheme) collaborators \<Rightarrow> 'u \<Rightarrow> feedRef \<Rightarrow> Feed
     \<Rightarrow> fetched \<times> 'x processor_scheme \<Rightarrow> (fetched \<times> 'x processor_scheme, error) step" where
  "phase1_feed env base feed_ref feed s =
     (case s of (fetched, p) \<Rightarrow>
      (case URL feed of
         None \<Rightarrow> Next (fetched, p)
       | Some u \<Rightarrow>
          (case url_Parse env u of
             Inl err \<Rightarrow>
               Next (fetched, p\<lparr>badProviderMetadata := topicMessages_error (badProviderMetadata p)
                   ''Invalid URL %s in feed: %v.'' [ArgString u, ArgError err]\<rparr>)
           | Inr up \<Rightarrow>
              (let feedBase = url_ResolveReference env base up;
                   feedURL = url_String env feedBase;
                   p1 = checkTLS env feedURL p
               in case rolieFeedEntries env feedURL p1 of
                    (Inl err, p2) \<Rightarrow>
                      if err \<noteq> errContinue then Return err (fetched, p2)
                      else Next (fetched, p2)
                  | (Inr advs, p2) \<Rightarrow> Next (fetched(feed_ref := advs), p2)))))"

definition phase1 ::
  "('u, 'x processor_scheme) collaborators \<Rightarrow> 'u \<Rightarrow> Feed list list
     \<Rightarrow> fetched \<times> 'x processor_scheme \<Rightarrow> (fetched \<times> 'x processor_scheme, error) step" where
  "phase1 env base feeds = forEachFeed (phase1_feed env base) feeds"

text \<open>Phase 2, the body of the inner loop (lines 139 to 173).\<close>

definition phase2_feed ::
  "('u, 'x processor_scheme) collaborators \<Rightarrow> 'u \<Rightarrow> fetched \<Rightarrow> feedRef \<Rightarrow> Feed
     \<Rightarrow> 'x processor_scheme \<Rightarrow> ('x processor_scheme, error) step" where
  "phase2_feed env base fetched feed_ref feed p =
     (case URL feed of
        None \<Rightarrow> Next p
      | Some u \<Rightarrow>
         (case fetched feed_ref of
            None \<Rightarrow> Next p
          | Some files \<Rightarrow>
             (case url_Parse env u of
                Inl err \<Rightarrow>
                  Next (p\<lparr>badProviderMetadata := topicMessages_error (badProviderMetadata p)
                      ''Invalid URL %s in feed: %v.'' [ArgString u, ArgError err]\<rparr>)
              | Inr up \<Rightarrow>
                 (let feedURL' = url_ResolveReference env base up
                  in case util_BaseURL env feedURL' of
                       Inl err \<Rightarrow>
                         Next (p\<lparr>badProviderMetadata :=
                             topicMessages_error (badProviderMetadata p)
                               ''Bad base path: %v'' [ArgError err]\<rparr>)
                     | Inr feedBase \<Rightarrow>
                        (let label = tlpLabel (TLPLabel feed);
                             p1 = p\<lparr>labelChecker := Some
                                    \<lparr>feedURL = url_String env feedURL',
                                     feedLabel = label,
                                     advisories = Map.empty\<rparr>\<rparr>
                         in case integrity env files feedBase p1 of
                              (Some err, p2) \<Rightarrow>
                                if err \<noteq> errContinue then Return err p2 else Next p2
                            | (None, p2) \<Rightarrow> Next p2)))))"

definition phase2 ::
  "('u, 'x processor_scheme) collaborators \<Rightarrow> 'u \<Rightarrow> fetched \<Rightarrow> Feed list list
     \<Rightarrow> 'x processor_scheme \<Rightarrow> ('x processor_scheme, error) step" where
  "phase2 env base fetched feeds = forEachFeed (phase2_feed env base fetched) feeds"

text \<open>
  The variables of phase 3: the set \<^verbatim>\<open>hasSummary\<close>, the three flags, and the processor.
\<close>

record 'p completeness =
  hasSummary :: "TLPLabel fset"
  hasUnlabeled :: bool
  hasWhite :: bool
  hasGreen :: bool
  proc :: 'p

text \<open>
  The loop over the files of one feed (lines 220 to 227), one pass: the set built is the
  local \<^verbatim>\<open>advisories\<close> of line 218, called \<open>listed\<close> here. The message names the feed's
  URL, as the source does.
\<close>

definition listAdvisory ::
  "('u, 'x processor_scheme) collaborators \<Rightarrow> ('u \<Rightarrow> 'u) \<Rightarrow> JSONURL \<Rightarrow> AdvisoryFile
     \<Rightarrow> string fset \<times> 'x processor_scheme \<Rightarrow> string fset \<times> 'x processor_scheme" where
  "listAdvisory env makeAbs feed_url adv s =
     (case s of (listed, p) \<Rightarrow>
      (case url_Parse env (AdvisoryFile_URL adv) of
         Inl err \<Rightarrow>
           (listed, p\<lparr>badProviderMetadata := topicMessages_error (badProviderMetadata p)
               ''Invalid URL %s in feed: %v.'' [ArgString feed_url, ArgError err]\<rparr>)
       | Inr u \<Rightarrow> (finsert (url_String env (makeAbs u)) listed, p)))"

text \<open>Phase 3, the body of the inner loop (lines 189 to 230).\<close>

definition phase3_feed ::
  "('u, 'x processor_scheme) collaborators \<Rightarrow> 'u \<Rightarrow> fetched \<Rightarrow> feedRef \<Rightarrow> Feed
     \<Rightarrow> 'x processor_scheme completeness
     \<Rightarrow> ('x processor_scheme completeness, error) step" where
  "phase3_feed env base fetched feed_ref feed st =
     (case URL feed of
        None \<Rightarrow> Next st
      | Some u \<Rightarrow>
         (case fetched feed_ref of
            None \<Rightarrow> Next st
          | Some files \<Rightarrow>
             (case url_Parse env u of
                Inl err \<Rightarrow>
                  Next (st\<lparr>proc := (proc st)\<lparr>badProviderMetadata :=
                    topicMessages_error (badProviderMetadata (proc st))
                      ''Invalid URL %s in feed: %v.'' [ArgString u, ArgError err]\<rparr>\<rparr>)
              | Inr up \<Rightarrow>
                 (let feedBase = url_ResolveReference env base up;
                      makeAbs = makeAbsolute env feedBase;
                      label = tlpLabel (TLPLabel feed);
                      st1 = (if label = TLPLabelUnlabeled then st\<lparr>hasUnlabeled := True\<rparr>
                             else if label = TLPLabelWhite then st\<lparr>hasWhite := True\<rparr>
                             else if label = TLPLabelGreen then st\<lparr>hasGreen := True\<rparr>
                             else st)
                  in case labelChecker (proc st1) of
                       None \<Rightarrow> Panic st1
                     | Some ca \<Rightarrow>
                        (let reference = advisories ca label;
                             (listed, p1) =
                               fold (listAdvisory env makeAbs u) files ({||}, proc st1);
                             st2 = st1\<lparr>proc := p1\<rparr>
                         in if containsAllKeys reference (Some listed)
                            then Next (st2\<lparr>hasSummary := finsert label (hasSummary st2)\<rparr>)
                            else Next st2)))))"

definition phase3_loop ::
  "('u, 'x processor_scheme) collaborators \<Rightarrow> 'u \<Rightarrow> fetched \<Rightarrow> Feed list list
     \<Rightarrow> 'x processor_scheme completeness
     \<Rightarrow> ('x processor_scheme completeness, error) step" where
  "phase3_loop env base fetched feeds = forEachFeed (phase3_feed env base fetched) feeds"

text \<open>Lines 234 to 238: the check for a publicly accessible feed.\<close>

definition publicFeedError :: Message where
  "publicFeedError =
     Message ErrorType
       (''One ROLIE feed with a TLP:WHITE, TLP:GREEN or unlabeled tlp must exist, '' @
        ''but none were found.'') []"

definition publicFeedCheck :: "'x processor_scheme completeness \<Rightarrow> 'x processor_scheme" where
  "publicFeedCheck st =
     (if \<not> hasWhite st \<and> \<not> hasGreen st \<and> \<not> hasUnlabeled st
      then (proc st)\<lparr>badROLIEfeed := topicMessages_error (badROLIEfeed (proc st))
             (Format publicFeedError) (Args publicFeedError)\<rparr>
      else proc st)"

text \<open>
  Lines 241 to 253, one pass of the loop over the five labels. \<^verbatim>\<open>!ok && len(...) > 0\<close>
  reads \<^verbatim>\<open>p.labelChecker\<close> only when the label has no summary feed.
\<close>

definition summaryWarning :: "TLPLabel \<Rightarrow> Message" where
  "summaryWarning label =
     Message WarnType
       ''ROLIE feed for TLP:%s has no accessible listed feed covering all advisories.''
       [ArgString label]"

definition summaryCheck ::
  "TLPLabel fset \<Rightarrow> TLPLabel \<Rightarrow> 'x processor_scheme \<Rightarrow> ('x processor_scheme, error) step" where
  "summaryCheck summary label p =
     (if label |\<in>| summary then Next p
      else case labelChecker p of
             None \<Rightarrow> Panic p
           | Some ca \<Rightarrow>
               if 0 < fcard (keys (advisories ca label))
               then Next (p\<lparr>badROLIEfeed := topicMessages_warn (badROLIEfeed p)
                      (Format (summaryWarning label)) (Args (summaryWarning label))\<rparr>)
               else Next p)"

definition allLabels :: "TLPLabel list" where
  "allLabels = [TLPLabelUnlabeled, TLPLabelWhite, TLPLabelGreen, TLPLabelAmber, TLPLabelRed]"

text \<open>Phase 3 after its loop, up to \<^verbatim>\<open>return nil\<close>.\<close>

definition phase3_finish ::
  "'x processor_scheme completeness \<Rightarrow> error option outcome \<times> 'x processor_scheme" where
  "phase3_finish st =
     (case forEach (summaryCheck (hasSummary st)) allLabels (publicFeedCheck st) of
        Next p \<Rightarrow> (Returned None, p)
      | Return err p \<Rightarrow> (Returned (Some err), p)
      | Panic p \<Rightarrow> (Panicked, p))"

definition phase3_init :: "'p \<Rightarrow> 'p completeness" where
  "phase3_init p =
     \<lparr>hasSummary = {||}, hasUnlabeled = False, hasWhite = False, hasGreen = False, proc = p\<rparr>"

definition phase3 ::
  "('u, 'x processor_scheme) collaborators \<Rightarrow> 'u \<Rightarrow> fetched \<Rightarrow> Feed list list
     \<Rightarrow> 'x processor_scheme \<Rightarrow> error option outcome \<times> 'x processor_scheme" where
  "phase3 env base fetched feeds p =
     (case phase3_loop env base fetched feeds (phase3_init p) of
        Next st \<Rightarrow> phase3_finish st
      | Return err st \<Rightarrow> (Returned (Some err), proc st)
      | Panic st \<Rightarrow> (Panicked, proc st))"

text \<open>\<^verbatim>\<open>func (p *processor) processROLIEFeeds(feeds [][]csaf.Feed) error\<close>.\<close>

definition processROLIEFeeds ::
  "('u, 'x processor_scheme) collaborators \<Rightarrow> Feed list list \<Rightarrow> 'x processor_scheme
     \<Rightarrow> error option outcome \<times> 'x processor_scheme" where
  "processROLIEFeeds env feeds p =
     (case url_Parse env (pmdURL p) of
        Inl err \<Rightarrow> (Returned (Some err), p)
      | Inr base \<Rightarrow>
         (let p0 = p\<lparr>badROLIEfeed := topicMessages_use (badROLIEfeed p)\<rparr>
          in case phase1 env base feeds (\<lambda>feed_ref. None, p0) of
               Return err (fetched, p1) \<Rightarrow> (Returned (Some err), p1)
             | Panic (fetched, p1) \<Rightarrow> (Panicked, p1)
             | Next (fetched, p1) \<Rightarrow>
                (case phase2 env base fetched feeds p1 of
                   Return err p2 \<Rightarrow> (Returned (Some err), p2)
                 | Panic p2 \<Rightarrow> (Panicked, p2)
                 | Next p2 \<Rightarrow> phase3 env base fetched feeds p2)))"

section \<open>serviceCheck\<close>

text \<open>
  The loop of lines 313 to 317 over the feeds of one slice, one pass: \<^verbatim>\<open>*s.URL\<close> is
  dereferenced with no test, so a nil URL panics.
\<close>

definition appendFeedURL :: "Feed \<Rightarrow> string list \<Rightarrow> (string list, error) step" where
  "appendFeedURL s ffeeds =
     (case URL s of
        None \<Rightarrow> Panic ffeeds
      | Some u \<Rightarrow> Next (ffeeds @ [u]))"

text \<open>\<^verbatim>\<open>func (p *processor) serviceCheck(feeds [][]csaf.Feed) error\<close>.\<close>

definition serviceCheck ::
  "('u, 'x processor_scheme) collaborators \<Rightarrow> Feed list list \<Rightarrow> 'x processor_scheme
     \<Rightarrow> error option outcome \<times> 'x processor_scheme" where
  "serviceCheck env feeds p =
     (case url_Parse env (pmdURL p) of
        Inl err \<Rightarrow> (Returned (Some err), p)
      | Inr pmdURL' \<Rightarrow>
         (case util_BaseURL env pmdURL' of
            Inl err \<Rightarrow> (Returned (Some err), p)
          | Inr baseURL \<Rightarrow>
             (let urls = baseURL @ ''service.json'';
                  p0 = p\<lparr>badROLIEservice := topicMessages_use (badROLIEservice p)\<rparr>
              in case httpClient_Get env urls p0 of
                   (Inl err, p1) \<Rightarrow>
                     (Returned (Some errContinue),
                      p1\<lparr>badROLIEservice := topicMessages_error (badROLIEservice p1)
                          ''Cannot fetch rolie service document %s: %v''
                          [ArgString urls, ArgError err]\<rparr>)
                 | (Inr res, p1) \<Rightarrow>
                     if StatusCode res \<noteq> http_StatusOK then
                       (Returned (Some errContinue),
                        p1\<lparr>badROLIEservice := topicMessages_warn (badROLIEservice p1)
                            ''Fetching %s failed. Status code %d (%s)''
                            [ArgString urls, ArgInt (StatusCode res), ArgString (Status res)]\<rparr>)
                     else
                       (case LoadROLIEServiceDocument env (Body res) of
                          Inl err \<Rightarrow>
                            (Returned (Some errContinue),
                             p1\<lparr>badROLIEservice := topicMessages_error (badROLIEservice p1)
                                 ''Loading ROLIE service document failed: %v.''
                                 [ArgError err]\<rparr>)
                        | Inr rolieService \<Rightarrow>
                           (let sfeeds =
                                  concat (map (\<lambda>col. map HRef (Collection col))
                                    (Workspace (Service rolieService)))
                            in case forEach (\<lambda>r. forEach appendFeedURL r) feeds [] of
                                 Panic ffeeds \<Rightarrow> (Panicked, p1)
                               | Return err ffeeds \<Rightarrow> (Returned (Some err), p1)
                               | Next ffeeds \<Rightarrow>
                                  (let (m1, m2) = sameContentsSS sfeeds ffeeds;
                                       p2 = (if length m1 \<noteq> 0
                                             then p1\<lparr>badROLIEservice :=
                                                    topicMessages_error (badROLIEservice p1)
                                                      (''The ROLIE service document contains '' @
                                                       ''nonexistent feed entries: %v'')
                                                      [ArgStrings m1]\<rparr>
                                             else p1);
                                       p3 = (if length m2 \<noteq> 0
                                             then p2\<lparr>badROLIEservice :=
                                                    topicMessages_error (badROLIEservice p2)
                                                      (''The ROLIE service document is '' @
                                                       ''missing feed entries: %v'')
                                                      [ArgStrings m2]\<rparr>
                                             else p2)
                                   in (Returned None, p3)))))))"

section \<open>Notions used in the statements\<close>

text \<open>
  The advisory URLs of a listing that \<^verbatim>\<open>url.Parse\<close> accepts, in the order of the listing.
\<close>

definition parsedURLs ::
  "('u, 'p) collaborators \<Rightarrow> AdvisoryFile list \<Rightarrow> 'u list" where
  "parsedURLs env files =
     List.map_filter
       (\<lambda>adv. case url_Parse env (AdvisoryFile_URL adv) of Inl err \<Rightarrow> None | Inr u \<Rightarrow> Some u)
       files"

text \<open>
  The local listing of a feed: the set of its advisories' URLs, each made absolute against
  the feed's URL \<open>feedBase\<close>.
\<close>

definition localListing ::
  "('u, 'p) collaborators \<Rightarrow> 'u \<Rightarrow> AdvisoryFile list \<Rightarrow> string fset" where
  "localListing env feedBase files =
     fset_of_list (map (\<lambda>u. url_String env (makeAbsolute env feedBase u)) (parsedURLs env files))"

text \<open>
  A feed is audited in phase 3 when it passes the three guards of the loop body: its URL
  is not nil, phase 1 stored a listing for it that is not nil, and its URL parses.
\<close>

definition audited :: "('u, 'p) collaborators \<Rightarrow> fetched \<Rightarrow> feedRef \<Rightarrow> Feed \<Rightarrow> bool" where
  "audited env fetched feed_ref feed =
     (case URL feed of
        None \<Rightarrow> False
      | Some u \<Rightarrow>
         (case fetched feed_ref of
            None \<Rightarrow> False
          | Some files \<Rightarrow>
             (case url_Parse env u of Inl err \<Rightarrow> False | Inr up \<Rightarrow> True)))"

text \<open>The local listing of an audited feed (empty for a feed that is not audited).\<close>

definition feedListing ::
  "('u, 'p) collaborators \<Rightarrow> 'u \<Rightarrow> fetched \<Rightarrow> feedRef \<Rightarrow> Feed \<Rightarrow> string fset" where
  "feedListing env base fetched feed_ref feed =
     (case URL feed of
        None \<Rightarrow> {||}
      | Some u \<Rightarrow>
         (case fetched feed_ref of
            None \<Rightarrow> {||}
          | Some files \<Rightarrow>
             (case url_Parse env u of
                Inl err \<Rightarrow> {||}
              | Inr up \<Rightarrow> localListing env (url_ResolveReference env base up) files)))"

text \<open>
  The reference inventory of a label: the set recorded under it by the checker the
  processor holds (\<^verbatim>\<open>p.labelChecker.advisories[label]\<close>).
\<close>

definition inventory :: "rolieLabelChecker \<Rightarrow> TLPLabel \<Rightarrow> string fset" where
  "inventory ca label = keys (advisories ca label)"



section \<open>Example data\<close>

text \<open>
  Concrete values on which the theorems below are evaluated: a provider with the feeds
  \<^verbatim>\<open>green.json\<close> (labelled Green, listing the advisories x and y) and \<^verbatim>\<open>amber.json\<close>
  (labelled Amber, listing y), where x is labelled Green and y Amber, and a service document
  that lists the Green feed by its absolute URL. The collaborators of the example are
  simple stand-ins: a URL is a string, a string that starts with a colon does not parse, a
  reference that does not start with \<^verbatim>\<open>https://\<close> is relative to the directory of the base,
  \<^verbatim>\<open>makeAbsolute\<close> joins a relative reference to its base as a further path element, the
  fetch of a feed that is not known logs an error and fails with the continue sentinel, the
  fetch of \<^verbatim>\<open>fatal.json\<close> fails with another error, and the integrity walker resolves the
  URL of every file against the base path it is given and calls \<open>check\<close> on the
  processor's checker with it; below the base path \<^verbatim>\<open>broken/\<close> it logs an error and fails
  with the continue sentinel. The feed \<^verbatim>\<open>rel.json\<close> (labelled Green) lists the advisory x by
  the relative URL \<^verbatim>\<open>x.json\<close>.
\<close>

definition example_parse :: "string \<Rightarrow> error + string" where
  "example_parse s =
     (if take 1 s = '':'' then Inl (OtherError ''missing protocol scheme'') else Inr s)"

definition example_dir :: "string \<Rightarrow> string" where
  "example_dir u = rev (dropWhile (\<lambda>c. c \<noteq> CHR ''/'') (rev u))"

definition example_isAbs :: "string \<Rightarrow> bool" where
  "example_isAbs u = (take 8 u = ''https://'')"

definition example_x :: AdvisoryFile where
  "example_x = \<lparr>AdvisoryFile_URL = ''https://x.org/x.json''\<rparr>"

definition example_y :: AdvisoryFile where
  "example_y = \<lparr>AdvisoryFile_URL = ''https://x.org/y.json''\<rparr>"

definition example_rel_x :: AdvisoryFile where
  "example_rel_x = \<lparr>AdvisoryFile_URL = ''x.json''\<rparr>"

definition example_label :: "AdvisoryFile \<Rightarrow> TLPLabel" where
  "example_label adv =
     (if AdvisoryFile_URL adv = ''https://x.org/y.json'' then TLPLabelAmber else TLPLabelGreen)"

definition example_visit :: "string \<Rightarrow> AdvisoryFile \<Rightarrow> processor \<Rightarrow> processor" where
  "example_visit feedBase adv p =
     (case labelChecker p of
        None \<Rightarrow> p
      | Some ca \<Rightarrow>
          (case check ca p (example_label adv)
                  (if example_isAbs (AdvisoryFile_URL adv) then AdvisoryFile_URL adv
                   else feedBase @ AdvisoryFile_URL adv) of
             (ca', p') \<Rightarrow> p'\<lparr>labelChecker := Some ca'\<rparr>))"

definition example_env :: "(string, processor) collaborators" where
  "example_env =
     \<lparr>url_Parse = example_parse,
      url_ResolveReference = (\<lambda>b u. if example_isAbs u then u else example_dir b @ u),
      url_String = (\<lambda>u. u),
      util_BaseURL = (\<lambda>u. Inr (example_dir u)),
      makeAbsolute = (\<lambda>b u. if example_isAbs u then u else b @ ''/'' @ u),
      checkTLS = (\<lambda>url p. p),
      rolieFeedEntries = (\<lambda>url p.
        if url = ''https://x.org/green.json'' then (Inr (Some [example_x, example_y]), p)
        else if url = ''https://x.org/amber.json'' then (Inr (Some [example_y]), p)
        else if url = ''https://x.org/rel.json'' then (Inr (Some [example_rel_x]), p)
        else if url = ''https://x.org/broken/red.json'' then (Inr (Some [example_y]), p)
        else if url = ''https://x.org/fatal.json'' then (Inl (OtherError ''fatal''), p)
        else (Inl errContinue,
              p\<lparr>badProviderMetadata := topicMessages_error (badProviderMetadata p)
                  ''Cannot fetch feed %s: %v'' [ArgString url, ArgError (OtherError ''not found'')]\<rparr>)),
      integrity = (\<lambda>files feedBase p.
        if feedBase = ''https://x.org/broken/''
        then (Some errContinue,
              p\<lparr>badProviderMetadata := topicMessages_error (badProviderMetadata p)
                  ''Cannot check the files below %s'' [ArgString feedBase]\<rparr>)
        else (None, fold (example_visit feedBase) files p)),
      httpClient_Get = (\<lambda>url p.
        (Inr \<lparr>StatusCode = 200, Status = ''200 OK'', Body = ''service''\<rparr>, p)),
      LoadROLIEServiceDocument = (\<lambda>body.
        Inr \<lparr>Service = \<lparr>Workspace = [\<lparr>Collection =
          [\<lparr>HRef = ''https://x.org/green.json''\<rparr>]\<rparr>]\<rparr>\<rparr>)\<rparr>"

definition example_processor :: processor where
  "example_processor =
     \<lparr>pmdURL = ''https://x.org/pmd.json'',
      badProviderMetadata = None, badROLIEfeed = None, badROLIEservice = None,
      labelChecker = None\<rparr>"

definition example_base :: string where
  "example_base = ''https://x.org/pmd.json''"

definition example_green :: Feed where
  "example_green = \<lparr>URL = Some ''green.json'', TLPLabel = Some TLPLabelGreen\<rparr>"

definition example_amber :: Feed where
  "example_amber = \<lparr>URL = Some ''amber.json'', TLPLabel = Some TLPLabelAmber\<rparr>"

definition example_nil :: Feed where
  "example_nil = \<lparr>URL = None, TLPLabel = None\<rparr>"






definition example_leak :: Message where
  "example_leak =
     Message ErrorType ''%s of TLP level %s must not be listed in feed %s of TLP level %s''
       [ArgString ''https://x.org/y.json'', ArgString TLPLabelAmber,
        ArgString ''https://x.org/green.json'', ArgString TLPLabelGreen]"

text \<open>The state after phases 1 and 2 when the Green feed is the only one.\<close>

definition example_green_fetched :: fetched where
  "example_green_fetched = (\<lambda>r. None)((0, 0) := Some [example_x, example_y])"

definition example_green_checker :: rolieLabelChecker where
  "example_green_checker =
     \<lparr>feedURL = ''https://x.org/green.json'', feedLabel = TLPLabelGreen,
      advisories = [TLPLabelGreen \<mapsto> {|''https://x.org/x.json''|},
                    TLPLabelAmber \<mapsto> {|''https://x.org/y.json''|}]\<rparr>"

definition example_green_p2 :: processor where
  "example_green_p2 =
     example_processor\<lparr>badROLIEfeed := Some [example_leak],
               labelChecker := Some example_green_checker\<rparr>"

text \<open>The state after phases 1 and 2 when the Amber feed is the only one.\<close>

definition example_amber_fetched :: fetched where
  "example_amber_fetched = (\<lambda>r. None)((0, 0) := Some [example_y])"

definition example_amber_checker :: rolieLabelChecker where
  "example_amber_checker =
     \<lparr>feedURL = ''https://x.org/amber.json'', feedLabel = TLPLabelAmber,
      advisories = [TLPLabelAmber \<mapsto> {|''https://x.org/y.json''|}]\<rparr>"

definition example_amber_p2 :: processor where
  "example_amber_p2 =
     example_processor\<lparr>badROLIEfeed := Some [], labelChecker := Some example_amber_checker\<rparr>"

text \<open>The service document of the example and the response that carries it.\<close>

definition example_service :: ROLIEServiceDocument where
  "example_service =
     \<lparr>Service = \<lparr>Workspace = [\<lparr>Collection = [\<lparr>HRef = ''https://x.org/green.json''\<rparr>]\<rparr>]\<rparr>\<rparr>"

definition example_response :: http_Response where
  "example_response = \<lparr>StatusCode = 200, Status = ''200 OK'', Body = ''service''\<rparr>"





text \<open>A checker of a feed labelled Green that has recorded nothing yet.\<close>

definition example_checker :: rolieLabelChecker where
  "example_checker =
     \<lparr>feedURL = ''https://example.com/green.json'', feedLabel = TLPLabelGreen,
      advisories = Map.empty\<rparr>"

section \<open>Properties of the label model and of the helpers\<close>

lemma TLPLabel_distinct:
  "distinct [TLPLabelUnlabeled, TLPLabelWhite, TLPLabelGreen, TLPLabelAmber, TLPLabelRed]"
  by (simp add: TLPLabelUnlabeled_def TLPLabelWhite_def TLPLabelGreen_def TLPLabelAmber_def
      TLPLabelRed_def)

lemma tlpLevel_values:
  "tlpLevel TLPLabelUnlabeled = 0" "tlpLevel TLPLabelWhite = 1" "tlpLevel TLPLabelGreen = 2"
  "tlpLevel TLPLabelAmber = 3" "tlpLevel TLPLabelRed = 4"
  using TLPLabel_distinct by (auto simp: tlpLevel_def)

lemma containsAllSS_set: "containsAllSS slice str \<longleftrightarrow> str \<in> set slice"
  by (induction slice) auto

lemma appendMissing_filter:
  "appendMissing xs other m = m @ filter (\<lambda>e. e \<notin> set other) xs"
  by (induction xs arbitrary: m) (simp_all add: containsAllSS_set)

lemma sameContentsSS_filter:
  "sameContentsSS A B = (filter (\<lambda>e. e \<notin> set B) A, filter (\<lambda>e. e \<notin> set A) B)"
  by (simp add: sameContentsSS_def appendMissing_filter)

subsection \<open>The rank of a label\<close>

text \<open>
  Claim C9. \<open>tlpLevel\<close> is a total function without effects (a HOL function). It maps
  Unlabeled, White, Green, Amber, Red to 0, 1, 2, 3, 4, so it is strictly increasing in
  that order and injective on the five labels; every label outside the five has rank 0,
  and every rank lies between 0 and 4. \<open>tlpLabel\<close> maps the nil pointer to Unlabeled and
  any other pointer to the label it points to.
\<close>

theorem tlpLevel_order:
  "tlpLevel TLPLabelUnlabeled = 0 \<and> tlpLevel TLPLabelWhite = 1 \<and> tlpLevel TLPLabelGreen = 2
   \<and> tlpLevel TLPLabelAmber = 3 \<and> tlpLevel TLPLabelRed = 4
   \<and> inj_on tlpLevel {TLPLabelUnlabeled, TLPLabelWhite, TLPLabelGreen, TLPLabelAmber, TLPLabelRed}
   \<and> (\<forall>l. l \<notin> {TLPLabelUnlabeled, TLPLabelWhite, TLPLabelGreen, TLPLabelAmber, TLPLabelRed}
          \<longrightarrow> tlpLevel l = 0)
   \<and> (\<forall>l. 0 \<le> tlpLevel l \<and> tlpLevel l \<le> 4)
   \<and> tlpLabel None = TLPLabelUnlabeled \<and> (\<forall>l. tlpLabel (Some l) = l)"
proof -
  have unrecognized: "\<forall>l. l \<notin> {TLPLabelUnlabeled, TLPLabelWhite, TLPLabelGreen, TLPLabelAmber, TLPLabelRed}
          \<longrightarrow> tlpLevel l = 0"
    by (simp add: tlpLevel_def)
  have inj: "inj_on tlpLevel {TLPLabelUnlabeled, TLPLabelWhite, TLPLabelGreen, TLPLabelAmber, TLPLabelRed}"
    by (simp add: inj_on_def tlpLevel_values)
  have range: "\<forall>l. 0 \<le> tlpLevel l \<and> tlpLevel l \<le> 4"
    by (simp add: tlpLevel_def)
  show ?thesis
    using unrecognized inj range by (simp add: tlpLevel_values tlpLabel_def)
qed

text \<open>The theorem at an unrecognised label, and at two of the five labels.\<close>

theorem tlpLevel_order_witness:
  "''PURPLE'' \<notin> {TLPLabelUnlabeled, TLPLabelWhite, TLPLabelGreen, TLPLabelAmber, TLPLabelRed}
   \<and> tlpLevel ''PURPLE'' = 0
   \<and> TLPLabelGreen \<in> {TLPLabelUnlabeled, TLPLabelWhite, TLPLabelGreen, TLPLabelAmber, TLPLabelRed}
   \<and> TLPLabelAmber \<in> {TLPLabelUnlabeled, TLPLabelWhite, TLPLabelGreen, TLPLabelAmber, TLPLabelRed}
   \<and> tlpLevel TLPLabelGreen \<noteq> tlpLevel TLPLabelAmber"
proof -
  have other: "''PURPLE'' \<notin> {TLPLabelUnlabeled, TLPLabelWhite, TLPLabelGreen, TLPLabelAmber, TLPLabelRed}"
    by (simp add: TLPLabelUnlabeled_def TLPLabelWhite_def TLPLabelGreen_def TLPLabelAmber_def
        TLPLabelRed_def)
  have ne: "TLPLabelGreen \<noteq> TLPLabelAmber"
    using TLPLabel_distinct by simp
  from tlpLevel_order other have zero: "tlpLevel ''PURPLE'' = 0"
    by blast
  from tlpLevel_order
  have "inj_on tlpLevel {TLPLabelUnlabeled, TLPLabelWhite, TLPLabelGreen, TLPLabelAmber, TLPLabelRed}"
    by blast
  then have "tlpLevel TLPLabelGreen \<noteq> tlpLevel TLPLabelAmber"
    using ne by (simp add: inj_on_def)
  with other zero show ?thesis by simp
qed

subsection \<open>The label check\<close>

lemma example_ranks:
  "tlpLevel ''PURPLE'' = 0" "feedLabel example_checker = TLPLabelGreen"
  "feedURL example_checker = ''https://example.com/green.json''"
  "messages (badROLIEfeed example_processor) = []"
  by (simp_all add: tlpLevel_def example_checker_def example_processor_def messages_def
      TLPLabelWhite_def TLPLabelGreen_def TLPLabelAmber_def TLPLabelRed_def)

text \<open>
  Claim C1. A call of \<open>check\<close> with advisory label \<open>A\<close> on a checker with feed label \<open>F\<close>
  appends to the sink \<open>badROLIEfeed\<close> exactly one diagnostic when the ranks differ, and
  none when they are equal: below the feed's rank an info (rank 0, naming the advisory and
  the feed URL) or else a warning (naming the advisory, its label, the feed URL and the
  feed's label); above the feed's rank an error with the same four arguments. Nothing
  else of the processor changes.
\<close>

theorem check_diagnostics:
  "(tlpLevel advisoryLabel < tlpLevel (feedLabel ca) \<and> tlpLevel advisoryLabel = 0 \<longrightarrow>
      messages (badROLIEfeed (snd (check ca p advisoryLabel advisory))) =
        messages (badROLIEfeed p) @
          [Message InfoType ''Found unlabeled advisory %q in feed %q.''
             [ArgString advisory, ArgString (feedURL ca)]])
   \<and> (tlpLevel advisoryLabel < tlpLevel (feedLabel ca) \<and> tlpLevel advisoryLabel \<noteq> 0 \<longrightarrow>
      messages (badROLIEfeed (snd (check ca p advisoryLabel advisory))) =
        messages (badROLIEfeed p) @
          [Message WarnType ''Found advisory %q labled TLP:%s in feed %q (TLP:%s).''
             [ArgString advisory, ArgString advisoryLabel,
              ArgString (feedURL ca), ArgString (feedLabel ca)]])
   \<and> (tlpLevel advisoryLabel > tlpLevel (feedLabel ca) \<longrightarrow>
      messages (badROLIEfeed (snd (check ca p advisoryLabel advisory))) =
        messages (badROLIEfeed p) @
          [Message ErrorType ''%s of TLP level %s must not be listed in feed %s of TLP level %s''
             [ArgString advisory, ArgString advisoryLabel,
              ArgString (feedURL ca), ArgString (feedLabel ca)]])
   \<and> (tlpLevel advisoryLabel = tlpLevel (feedLabel ca) \<longrightarrow>
      badROLIEfeed (snd (check ca p advisoryLabel advisory)) = badROLIEfeed p)
   \<and> (snd (check ca p advisoryLabel advisory))\<lparr>badROLIEfeed := badROLIEfeed p\<rparr> = p"
  by (simp add: check_def Let_def messages_def topicMessages_info_def topicMessages_warn_def
      topicMessages_error_def topicMessages_add_def)

text \<open>The four cases on a feed labelled Green.\<close>

theorem check_diagnostics_witness:
  "tlpLevel ''PURPLE'' < tlpLevel (feedLabel example_checker) \<and> tlpLevel ''PURPLE'' = 0
   \<and> messages (badROLIEfeed (snd (check example_checker example_processor ''PURPLE'' ''a.json''))) =
       [Message InfoType ''Found unlabeled advisory %q in feed %q.''
          [ArgString ''a.json'', ArgString ''https://example.com/green.json'']]
   \<and> tlpLevel TLPLabelWhite < tlpLevel (feedLabel example_checker) \<and> tlpLevel TLPLabelWhite \<noteq> 0
   \<and> messages (badROLIEfeed (snd (check example_checker example_processor TLPLabelWhite ''a.json''))) =
       [Message WarnType ''Found advisory %q labled TLP:%s in feed %q (TLP:%s).''
          [ArgString ''a.json'', ArgString TLPLabelWhite,
           ArgString ''https://example.com/green.json'', ArgString TLPLabelGreen]]
   \<and> tlpLevel TLPLabelAmber > tlpLevel (feedLabel example_checker)
   \<and> messages (badROLIEfeed (snd (check example_checker example_processor TLPLabelAmber ''a.json''))) =
       [Message ErrorType ''%s of TLP level %s must not be listed in feed %s of TLP level %s''
          [ArgString ''a.json'', ArgString TLPLabelAmber,
           ArgString ''https://example.com/green.json'', ArgString TLPLabelGreen]]
   \<and> tlpLevel TLPLabelGreen = tlpLevel (feedLabel example_checker)
   \<and> badROLIEfeed (snd (check example_checker example_processor TLPLabelGreen ''a.json'')) = None"
proof -
  have lt0: "tlpLevel ''PURPLE'' < tlpLevel (feedLabel example_checker) \<and> tlpLevel ''PURPLE'' = 0"
    and lt1: "tlpLevel TLPLabelWhite < tlpLevel (feedLabel example_checker) \<and> tlpLevel TLPLabelWhite \<noteq> 0"
    and gt: "tlpLevel TLPLabelAmber > tlpLevel (feedLabel example_checker)"
    and eq: "tlpLevel TLPLabelGreen = tlpLevel (feedLabel example_checker)"
    by (simp_all add: example_ranks tlpLevel_values)
  have c0: "messages (badROLIEfeed (snd (check example_checker example_processor ''PURPLE'' ''a.json''))) =
       [Message InfoType ''Found unlabeled advisory %q in feed %q.''
          [ArgString ''a.json'', ArgString ''https://example.com/green.json'']]"
    using lt0 check_diagnostics [of "''PURPLE''" example_checker example_processor "''a.json''"]
    by (simp only: example_ranks append_Nil simp_thms)
  have c1: "messages (badROLIEfeed (snd (check example_checker example_processor TLPLabelWhite ''a.json''))) =
       [Message WarnType ''Found advisory %q labled TLP:%s in feed %q (TLP:%s).''
          [ArgString ''a.json'', ArgString TLPLabelWhite,
           ArgString ''https://example.com/green.json'', ArgString TLPLabelGreen]]"
    using lt1 check_diagnostics [of TLPLabelWhite example_checker example_processor "''a.json''"]
    by (simp only: example_ranks append_Nil simp_thms)
  have c2: "messages (badROLIEfeed (snd (check example_checker example_processor TLPLabelAmber ''a.json''))) =
       [Message ErrorType ''%s of TLP level %s must not be listed in feed %s of TLP level %s''
          [ArgString ''a.json'', ArgString TLPLabelAmber,
           ArgString ''https://example.com/green.json'', ArgString TLPLabelGreen]]"
    using gt check_diagnostics [of TLPLabelAmber example_checker example_processor "''a.json''"]
    by (simp only: example_ranks append_Nil simp_thms)
  have "badROLIEfeed (snd (check example_checker example_processor TLPLabelGreen ''a.json'')) =
      badROLIEfeed example_processor"
    using eq check_diagnostics [of TLPLabelGreen example_checker example_processor "''a.json''"]
    by blast
  then have c3: "badROLIEfeed (snd (check example_checker example_processor TLPLabelGreen ''a.json'')) = None"
    by (simp add: example_processor_def)
  from lt0 c0 lt1 c1 gt c2 eq c3 show ?thesis
    by (intro conjI) (erule conjunct1 conjunct2 | assumption)+
qed

text \<open>
  Claim C7. Whatever the ranks are, \<open>check\<close> stores the advisory's URL in the set kept
  under the advisory's label: the set is the old one with the URL added, the empty one
  when the label had no entry. No other entry of the map and no other field of the checker
  changes.
\<close>

theorem check_records:
  "advisories (fst (check ca p advisoryLabel advisory)) =
     (advisories ca)(advisoryLabel \<mapsto> finsert advisory (keys (advisories ca advisoryLabel)))
   \<and> advisory |\<in>| keys (advisories (fst (check ca p advisoryLabel advisory)) advisoryLabel)
   \<and> feedURL (fst (check ca p advisoryLabel advisory)) = feedURL ca
   \<and> feedLabel (fst (check ca p advisoryLabel advisory)) = feedLabel ca"
  by (simp add: check_def Let_def keys_def)

text \<open>Two calls on a checker with no entry: the set is created, then extended.\<close>

theorem check_records_witness:
  "advisories (fst (check example_checker example_processor TLPLabelAmber ''a.json'')) TLPLabelAmber
     = Some {|''a.json''|}
   \<and> advisories (fst (check
        (fst (check example_checker example_processor TLPLabelAmber ''a.json''))
        example_processor TLPLabelAmber ''b.json'')) TLPLabelAmber
     = Some {|''b.json'', ''a.json''|}"
  using check_records [of example_checker example_processor TLPLabelAmber "''a.json''"]
    check_records [of "fst (check example_checker example_processor TLPLabelAmber ''a.json'')"
      example_processor TLPLabelAmber "''b.json''"]
  by (simp add: example_checker_def keys_def)

subsection \<open>The difference of two slices\<close>

text \<open>
  Claim C4, as amended. \<open>sameContentsSS A B\<close> returns the elements of \<open>A\<close> that are not in
  \<open>B\<close> and the elements of \<open>B\<close> that are not in \<open>A\<close>, compared by equality, each in the order
  and with the multiplicity it has in its input. As sets the two results are the
  differences of the inputs' sets, so the elements reported do not depend on the order or
  on the repetitions of the inputs. Two empty inputs give two empty results;
  \<open>[a, b, c]\<close> and \<open>[b, c, d]\<close> (four different strings) give \<open>([a], [d])\<close>; equal inputs give
  two empty results; inputs with no common element are returned as they are.
\<close>

theorem sameContentsSS_difference:
  "sameContentsSS A B = (filter (\<lambda>e. e \<notin> set B) A, filter (\<lambda>e. e \<notin> set A) B)
   \<and> set (fst (sameContentsSS A B)) = set A - set B
   \<and> set (snd (sameContentsSS A B)) = set B - set A
   \<and> (set A' = set A \<and> set B' = set B \<longrightarrow>
        set (fst (sameContentsSS A' B')) = set (fst (sameContentsSS A B)) \<and>
        set (snd (sameContentsSS A' B')) = set (snd (sameContentsSS A B)))
   \<and> sameContentsSS [] [] = ([], [])
   \<and> (distinct [a, b, c, d] \<longrightarrow> sameContentsSS [a, b, c] [b, c, d] = ([a], [d]))
   \<and> sameContentsSS A A = ([], [])
   \<and> (set A \<inter> set B = {} \<longrightarrow> sameContentsSS A B = (A, B))"
proof -
  have sets: "set (fst (sameContentsSS X Y)) = set X - set Y"
    "set (snd (sameContentsSS X Y)) = set Y - set X" for X Y
    by (auto simp: sameContentsSS_filter)
  have disjoint: "set A \<inter> set B = {} \<longrightarrow> sameContentsSS A B = (A, B)"
  proof
    assume d: "set A \<inter> set B = {}"
    have "filter (\<lambda>e. e \<notin> set B) A = A" "filter (\<lambda>e. e \<notin> set A) B = B"
      using d by (auto simp: filter_id_conv)
    then show "sameContentsSS A B = (A, B)"
      by (simp add: sameContentsSS_filter)
  qed
  have example: "distinct [a, b, c, d] \<longrightarrow> sameContentsSS [a, b, c] [b, c, d] = ([a], [d])"
    by (auto simp: sameContentsSS_filter)
  have same: "sameContentsSS A A = ([], [])"
    by (simp add: sameContentsSS_filter)
  show ?thesis
    using sets disjoint example same by (simp add: sameContentsSS_filter)
qed

text \<open>The theorem at the spec's example, at two disjoint slices and at two reorderings.\<close>

theorem sameContentsSS_difference_witness:
  "distinct [''a'', ''b'', ''c'', ''d'']
   \<and> sameContentsSS [''a'', ''b'', ''c''] [''b'', ''c'', ''d''] = ([''a''], [''d''])
   \<and> set [''a'', ''b''] \<inter> set [''c''] = {}
   \<and> sameContentsSS [''a'', ''b''] [''c''] = ([''a'', ''b''], [''c''])
   \<and> set [''b'', ''a'', ''a''] = set [''a'', ''b''] \<and> set [''c'', ''a''] = set [''a'', ''c'', ''c'']
   \<and> set (fst (sameContentsSS [''b'', ''a'', ''a''] [''c'', ''a''])) =
       set (fst (sameContentsSS [''a'', ''b''] [''a'', ''c'', ''c'']))"
proof -
  have h1: "distinct [''a'', ''b'', ''c'', ''d'']" by simp
  have h2: "set [''a'', ''b''] \<inter> set [''c''] = {}" by simp
  have h3: "set [''b'', ''a'', ''a''] = set [''a'', ''b'']"
    and h4: "set [''c'', ''a''] = set [''a'', ''c'', ''c'']"
    by auto
  note t = sameContentsSS_difference
    [of "[''a'', ''b'']" "[''a'', ''c'', ''c'']" "[''b'', ''a'', ''a'']" "[''c'', ''a'']"
      "''a''" "''b''" "''c''" "''d''"]
  note u = sameContentsSS_difference
    [of "[''a'', ''b'']" "[''c'']" "[]" "[]" "''a''" "''b''" "''c''" "''d''"]
  from t have "distinct [''a'', ''b'', ''c'', ''d''] \<longrightarrow>
      sameContentsSS [''a'', ''b'', ''c''] [''b'', ''c'', ''d''] = ([''a''], [''d''])"
    by (elim conjE)
  then have c1: "sameContentsSS [''a'', ''b'', ''c''] [''b'', ''c'', ''d''] = ([''a''], [''d''])"
    using h1 by (rule mp)
  from u have "set [''a'', ''b''] \<inter> set [''c''] = {} \<longrightarrow>
      sameContentsSS [''a'', ''b''] [''c''] = ([''a'', ''b''], [''c''])"
    by (elim conjE)
  then have c2: "sameContentsSS [''a'', ''b''] [''c''] = ([''a'', ''b''], [''c''])"
    using h2 by (rule mp)
  from t have "set [''b'', ''a'', ''a''] = set [''a'', ''b''] \<and>
      set [''c'', ''a''] = set [''a'', ''c'', ''c''] \<longrightarrow>
      set (fst (sameContentsSS [''b'', ''a'', ''a''] [''c'', ''a''])) =
        set (fst (sameContentsSS [''a'', ''b''] [''a'', ''c'', ''c''])) \<and>
      set (snd (sameContentsSS [''b'', ''a'', ''a''] [''c'', ''a''])) =
        set (snd (sameContentsSS [''a'', ''b''] [''a'', ''c'', ''c'']))"
    by (elim conjE)
  with h3 h4 have c3: "set (fst (sameContentsSS [''b'', ''a'', ''a''] [''c'', ''a''])) =
        set (fst (sameContentsSS [''a'', ''b''] [''a'', ''c'', ''c'']))"
    by blast
  from h1 c1 h2 c2 h3 h4 c3 show ?thesis
    by (intro conjI)
qed

text \<open>
  Claim C4 as stated says that duplicates collapse and that the result does not depend on
  the order. The returned slices keep both: a repeated element is reported as often as it
  is listed, and two inputs with the same elements give different results.
\<close>

theorem sameContentsSS_duplicates_counterexample:
  "sameContentsSS [''b'', ''a'', ''a''] [] = ([''b'', ''a'', ''a''], [])
   \<and> \<not> distinct (fst (sameContentsSS [''b'', ''a'', ''a''] []))
   \<and> set [''b'', ''a'', ''a''] = set [''a'', ''b'']
   \<and> sameContentsSS [''b'', ''a'', ''a''] [] \<noteq> sameContentsSS [''a'', ''b''] []"
  by (auto simp: sameContentsSS_def containsAllSS_set)

section \<open>The loops\<close>

lemma forEach_append:
  "forEach body (xs @ ys) s =
     (case forEach body xs s of Next s' \<Rightarrow> forEach body ys s' | Return r s' \<Rightarrow> Return r s'
      | Panic s' \<Rightarrow> Panic s')"
  by (induction xs arbitrary: s) (auto split: step.splits)

lemma forEach_map: "forEach body (map f xs) = forEach (\<lambda>x. body (f x)) xs"
proof
  fix s show "forEach body (map f xs) s = forEach (\<lambda>x. body (f x)) xs s"
    by (induction xs arbitrary: s) (auto split: step.splits)
qed

lemma forEach_concat: "forEach body (concat xss) s = forEach (\<lambda>xs. forEach body xs) xss s"
  by (induction xss arbitrary: s) (auto simp: forEach_append split: step.splits)

lemma forEachFeed_feedRefs:
  "forEachFeed body feeds s = forEach (\<lambda>(r, feed). body r feed) (feedRefs feeds) s"
  by (simp add: forEachFeed_def feedRefs_def forEach_concat forEach_map case_prod_unfold)



section \<open>Phase 1: what is stored\<close>




section \<open>Phase 3: one feed, the loop, and the checks after the loop\<close>

lemma fold_listAdvisory_fst:
  "fst (fold (listAdvisory env (makeAbsolute env feedBase) u) files (listed, p)) =
     listed |\<union>| localListing env feedBase files"
proof (induction files arbitrary: listed p)
  case Nil
  show ?case by (simp add: localListing_def parsedURLs_def)
next
  case (Cons adv files)
  show ?case
  proof (cases "url_Parse env (AdvisoryFile_URL adv)")
    case (Inl err)
    then show ?thesis
      using Cons.IH by (simp add: listAdvisory_def localListing_def parsedURLs_def)
  next
    case (Inr v)
    then show ?thesis
      using Cons.IH by (auto simp add: listAdvisory_def localListing_def parsedURLs_def)
  qed
qed

lemma fold_listAdvisory_frame:
  "labelChecker (snd (fold (listAdvisory env makeAbs u) files (listed, p))) = labelChecker p
   \<and> badROLIEfeed (snd (fold (listAdvisory env makeAbs u) files (listed, p))) = badROLIEfeed p
   \<and> badROLIEservice (snd (fold (listAdvisory env makeAbs u) files (listed, p))) = badROLIEservice p"
  by (induction files arbitrary: listed p) (auto simp: listAdvisory_def split: sum.splits)

lemma phase3_feed_skip:
  "\<not> audited env fetched r feed \<Longrightarrow> phase3_feed env base fetched r feed st = Next st' \<Longrightarrow>
     hasSummary st' = hasSummary st \<and> hasUnlabeled st' = hasUnlabeled st
     \<and> hasWhite st' = hasWhite st \<and> hasGreen st' = hasGreen st
     \<and> labelChecker (proc st') = labelChecker (proc st)
     \<and> badROLIEfeed (proc st') = badROLIEfeed (proc st)
     \<and> badROLIEservice (proc st') = badROLIEservice (proc st)"
  by (auto simp: audited_def phase3_feed_def split: option.splits sum.splits)

lemma phase3_feed_audited:
  assumes a: "audited env fetched r feed"
  shows "phase3_feed env base fetched r feed st =
    (let label = tlpLabel (TLPLabel feed);
         st1 = (if label = TLPLabelUnlabeled then st\<lparr>hasUnlabeled := True\<rparr>
                else if label = TLPLabelWhite then st\<lparr>hasWhite := True\<rparr>
                else if label = TLPLabelGreen then st\<lparr>hasGreen := True\<rparr>
                else st)
     in case labelChecker (proc st) of
          None \<Rightarrow> Panic st1
        | Some ca \<Rightarrow>
            Next (st1\<lparr>proc := snd (fold (listAdvisory env
                      (makeAbsolute env (url_ResolveReference env base
                         (projr (url_Parse env (the (URL feed))))))
                      (the (URL feed))) (the (fetched r)) ({||}, proc st)),
                    hasSummary :=
                      (if inventory ca label |\<subseteq>| feedListing env base fetched r feed
                       then finsert label (hasSummary st) else hasSummary st)\<rparr>))"
proof -
  from a obtain u files up where u: "URL feed = Some u" and f: "fetched r = Some files"
    and up: "url_Parse env u = Inr up"
    by (auto simp: audited_def split: option.splits sum.splits)
  have l: "feedListing env base fetched r feed =
      localListing env (url_ResolveReference env base up) files"
    by (simp add: feedListing_def u f up)
  obtain listed p1 where fo: "fold (listAdvisory env
      (makeAbsolute env (url_ResolveReference env base up)) u) files ({||}, proc st) = (listed, p1)"
    by (cases "fold (listAdvisory env
      (makeAbsolute env (url_ResolveReference env base up)) u) files ({||}, proc st)")
  have li: "listed = localListing env (url_ResolveReference env base up) files"
    using fold_listAdvisory_fst [of env "url_ResolveReference env base up" u files "{||}" "proc st"]
    by (simp add: fo)
  have proc1: "proc (if tlpLabel (TLPLabel feed) = TLPLabelUnlabeled then st\<lparr>hasUnlabeled := True\<rparr>
                else if tlpLabel (TLPLabel feed) = TLPLabelWhite then st\<lparr>hasWhite := True\<rparr>
                else if tlpLabel (TLPLabel feed) = TLPLabelGreen then st\<lparr>hasGreen := True\<rparr>
                else st) = proc st"
    by simp
  show ?thesis
    unfolding phase3_feed_def Let_def u f up option.case sum.case proc1 fo prod.case
      option.sel sum.sel snd_conv l
    by (cases "labelChecker (proc st)")
       (simp_all add: containsAllKeys_def keys_def inventory_def li fsubset_eq)
qed

lemma phase3_feed_Next:
  assumes n: "phase3_feed env base fetched r feed st = Next st'"
  shows "labelChecker (proc st') = labelChecker (proc st)
    \<and> badROLIEfeed (proc st') = badROLIEfeed (proc st)
    \<and> badROLIEservice (proc st') = badROLIEservice (proc st)
    \<and> hasUnlabeled st' = (hasUnlabeled st \<or>
         audited env fetched r feed \<and> tlpLabel (TLPLabel feed) = TLPLabelUnlabeled)
    \<and> hasWhite st' = (hasWhite st \<or>
         audited env fetched r feed \<and> tlpLabel (TLPLabel feed) = TLPLabelWhite)
    \<and> hasGreen st' = (hasGreen st \<or>
         audited env fetched r feed \<and> tlpLabel (TLPLabel feed) = TLPLabelGreen)
    \<and> hasSummary st' =
         (if audited env fetched r feed \<and>
             (\<exists>ca. labelChecker (proc st) = Some ca \<and>
                inventory ca (tlpLabel (TLPLabel feed)) |\<subseteq>| feedListing env base fetched r feed)
          then finsert (tlpLabel (TLPLabel feed)) (hasSummary st) else hasSummary st)"
proof (cases "audited env fetched r feed")
  case False
  with phase3_feed_skip [OF False n] show ?thesis by simp
next
  case True
  have d: "TLPLabelUnlabeled \<noteq> TLPLabelWhite" "TLPLabelUnlabeled \<noteq> TLPLabelGreen"
    "TLPLabelWhite \<noteq> TLPLabelGreen"
    using TLPLabel_distinct by simp_all
  from n obtain ca where ca: "labelChecker (proc st) = Some ca"
    by (cases "labelChecker (proc st)") (auto simp: phase3_feed_audited [OF True] Let_def)
  show ?thesis
    using n d True
    by (auto simp: phase3_feed_audited [OF True] Let_def ca fold_listAdvisory_frame
        split: if_splits)
qed

lemma phase3_forEach_Next:
  assumes "forEach (\<lambda>(r, feed). phase3_feed env base fetched r feed) refs st0 = Next st"
  shows "labelChecker (proc st) = labelChecker (proc st0)
    \<and> badROLIEfeed (proc st) = badROLIEfeed (proc st0)
    \<and> badROLIEservice (proc st) = badROLIEservice (proc st0)
    \<and> hasUnlabeled st = (hasUnlabeled st0 \<or> (\<exists>(r, feed) \<in> set refs.
         audited env fetched r feed \<and> tlpLabel (TLPLabel feed) = TLPLabelUnlabeled))
    \<and> hasWhite st = (hasWhite st0 \<or> (\<exists>(r, feed) \<in> set refs.
         audited env fetched r feed \<and> tlpLabel (TLPLabel feed) = TLPLabelWhite))
    \<and> hasGreen st = (hasGreen st0 \<or> (\<exists>(r, feed) \<in> set refs.
         audited env fetched r feed \<and> tlpLabel (TLPLabel feed) = TLPLabelGreen))
    \<and> (\<forall>label. label |\<in>| hasSummary st \<longleftrightarrow> label |\<in>| hasSummary st0 \<or>
         (\<exists>(r, feed) \<in> set refs. audited env fetched r feed \<and> tlpLabel (TLPLabel feed) = label \<and>
            (\<exists>ca. labelChecker (proc st0) = Some ca \<and>
               inventory ca label |\<subseteq>| feedListing env base fetched r feed)))"
  using assms
proof (induction refs arbitrary: st0)
  case Nil
  then show ?case by simp
next
  case (Cons x refs)
  obtain r feed where x: "x = (r, feed)" by (cases x)
  from Cons.prems obtain st1 where
    s1: "phase3_feed env base fetched r feed st0 = Next st1" and
    rest: "forEach (\<lambda>(r, feed). phase3_feed env base fetched r feed) refs st1 = Next st"
    by (auto simp: x split: step.splits)
  note step = phase3_feed_Next [OF s1]
  note ih = Cons.IH [OF rest]
  show ?case
    unfolding x using step ih by (simp (no_asm_simp)) blast
qed

lemma publicFeedCheck_effect:
  "messages (badROLIEfeed (publicFeedCheck st)) =
     messages (badROLIEfeed (proc st)) @
       (if \<not> hasWhite st \<and> \<not> hasGreen st \<and> \<not> hasUnlabeled st then [publicFeedError] else [])
   \<and> labelChecker (publicFeedCheck st) = labelChecker (proc st)
   \<and> badProviderMetadata (publicFeedCheck st) = badProviderMetadata (proc st)
   \<and> badROLIEservice (publicFeedCheck st) = badROLIEservice (proc st)"
  by (simp add: publicFeedCheck_def topicMessages_error_def topicMessages_add_def messages_def
      publicFeedError_def)

lemma fcard_pos: "0 < fcard A \<longleftrightarrow> A \<noteq> {||}"
  using fcard_0_eq [of A] by arith

lemma summaryWarning_eq: "summaryWarning l = summaryWarning l' \<longleftrightarrow> l = l'"
  by (simp add: summaryWarning_def)

lemma summaryCheck_loop:
  assumes "labelChecker p = Some ca"
  shows "\<exists>p'. forEach (summaryCheck summary) labels p = Next p'
    \<and> messages (badROLIEfeed p') = messages (badROLIEfeed p) @
         map summaryWarning
           (filter (\<lambda>l. l |\<notin>| summary \<and> inventory ca l \<noteq> {||}) labels)
    \<and> labelChecker p' = labelChecker p
    \<and> badProviderMetadata p' = badProviderMetadata p
    \<and> badROLIEservice p' = badROLIEservice p"
  using assms
proof (induction labels arbitrary: p)
  case Nil
  then show ?case by simp
next
  case (Cons l labels)
  let ?q = "p\<lparr>badROLIEfeed := topicMessages_warn (badROLIEfeed p)
              (Format (summaryWarning l)) (Args (summaryWarning l))\<rparr>"
  have w: "messages (badROLIEfeed ?q) = messages (badROLIEfeed p) @ [summaryWarning l]"
    by (simp add: topicMessages_warn_def topicMessages_add_def messages_def summaryWarning_def)
  show ?case
  proof (cases "l |\<notin>| summary \<and> inventory ca l \<noteq> {||}")
    case True
    then have s: "summaryCheck summary l p = Next ?q"
      using Cons.prems by (simp add: summaryCheck_def inventory_def fcard_pos)
    have "labelChecker ?q = Some ca" using Cons.prems by simp
    from Cons.IH [OF this] show ?thesis
      using True s w by auto
  next
    case False
    then have s: "summaryCheck summary l p = Next p"
      using Cons.prems by (auto simp add: summaryCheck_def inventory_def fcard_pos)
    from Cons.IH [OF Cons.prems] show ?thesis
      using False s by auto
  qed
qed

lemma summaryCheck_loop_nil:
  assumes "labelChecker p = None"
  shows "forEach (summaryCheck summary) labels p = Next p
       \<or> forEach (summaryCheck summary) labels p = Panic p"
  using assms by (induction labels) (auto simp: summaryCheck_def)

lemma summaryCheck_loop_public:
  "\<exists>p'. (forEach (summaryCheck summary) labels p = Next p'
          \<or> forEach (summaryCheck summary) labels p = Panic p')
        \<and> count_list (messages (badROLIEfeed p')) publicFeedError =
            count_list (messages (badROLIEfeed p)) publicFeedError"
proof (cases "labelChecker p")
  case None
  from summaryCheck_loop_nil [OF None, of summary labels] show ?thesis by auto
next
  case (Some ca)
  have "count_list (map summaryWarning ls) publicFeedError = 0" for ls
    by (induction ls) (simp_all add: summaryWarning_def publicFeedError_def)
  with summaryCheck_loop [OF Some, of summary labels] show ?thesis by auto
qed

lemma phase3_finish_public:
  "count_list (messages (badROLIEfeed (snd (phase3_finish st)))) publicFeedError =
     count_list (messages (badROLIEfeed (proc st))) publicFeedError +
       (if hasUnlabeled st \<or> hasWhite st \<or> hasGreen st then 0 else 1)"
proof -
  obtain p' where
    "forEach (summaryCheck (hasSummary st)) allLabels (publicFeedCheck st) = Next p'
       \<or> forEach (summaryCheck (hasSummary st)) allLabels (publicFeedCheck st) = Panic p'"
    and "count_list (messages (badROLIEfeed p')) publicFeedError =
            count_list (messages (badROLIEfeed (publicFeedCheck st))) publicFeedError"
    using summaryCheck_loop_public [of "hasSummary st" allLabels "publicFeedCheck st"] by blast
  then show ?thesis
    by (auto simp: phase3_finish_def publicFeedCheck_effect)
qed

lemma count_summaryWarning:
  assumes "distinct labels" "label \<in> set labels"
  shows "count_list (map summaryWarning (filter P labels)) (summaryWarning label) =
      (if P label then 1 else 0)"
  using assms
proof (induction labels)
  case Nil
  then show ?case by simp
next
  case (Cons l labels)
  show ?case
  proof (cases "l = label")
    case True
    with Cons.prems have "summaryWarning label \<notin> set (map summaryWarning (filter P labels))"
      by (auto simp: summaryWarning_eq)
    then have "count_list (map summaryWarning (filter P labels)) (summaryWarning label) = 0"
      by (rule count_notin)
    with True show ?thesis by simp
  next
    case False
    with Cons show ?thesis by (simp add: summaryWarning_eq)
  qed
qed

lemma phase3_finish_summary:
  assumes c: "labelChecker (proc st) = Some ca" and l: "label \<in> set allLabels"
  shows "fst (phase3_finish st) = Returned None
    \<and> count_list (messages (badROLIEfeed (snd (phase3_finish st)))) (summaryWarning label) =
       count_list (messages (badROLIEfeed (proc st))) (summaryWarning label) +
         (if inventory ca label \<noteq> {||} \<and> label |\<notin>| hasSummary st then 1 else 0)"
proof -
  have c': "labelChecker (publicFeedCheck st) = Some ca"
    using c by (simp add: publicFeedCheck_effect)
  have d: "distinct allLabels"
    using TLPLabel_distinct by (simp add: allLabels_def)
  have pe: "count_list (messages (badROLIEfeed (publicFeedCheck st))) (summaryWarning label) =
      count_list (messages (badROLIEfeed (proc st))) (summaryWarning label)"
    by (simp add: publicFeedCheck_effect summaryWarning_def publicFeedError_def)
  from summaryCheck_loop [OF c', of "hasSummary st" allLabels] obtain p' where
    n: "forEach (summaryCheck (hasSummary st)) allLabels (publicFeedCheck st) = Next p'" and
    m: "messages (badROLIEfeed p') = messages (badROLIEfeed (publicFeedCheck st)) @
         map summaryWarning
           (filter (\<lambda>l. l |\<notin>| hasSummary st \<and> inventory ca l \<noteq> {||}) allLabels)"
    by blast
  show ?thesis
    using pe by (simp add: phase3_finish_def n m count_summaryWarning [OF d l])
qed

lemma phase3_finish_warnings:
  assumes l: "label \<in> set allLabels"
  shows "count_list (messages (badROLIEfeed (snd (phase3_finish st)))) (summaryWarning label) =
       count_list (messages (badROLIEfeed (proc st))) (summaryWarning label) +
         (case labelChecker (proc st) of
            None \<Rightarrow> 0
          | Some ca \<Rightarrow> if inventory ca label \<noteq> {||} \<and> label |\<notin>| hasSummary st then 1 else 0)"
proof (cases "labelChecker (proc st)")
  case None
  then have "labelChecker (publicFeedCheck st) = None"
    by (simp add: publicFeedCheck_effect)
  from summaryCheck_loop_nil [OF this, of "hasSummary st" allLabels]
  have "snd (phase3_finish st) = publicFeedCheck st"
    by (auto simp: phase3_finish_def)
  then show ?thesis
    by (simp add: None publicFeedCheck_effect summaryWarning_def publicFeedError_def)
next
  case (Some ca)
  from phase3_finish_summary [OF Some l] show ?thesis
    by (simp add: Some)
qed

lemma phase3_finish_panic:
  assumes "labelChecker (proc st) = None" and "hasSummary st = {||}"
  shows "fst (phase3_finish st) = Panicked"
proof -
  have "labelChecker (publicFeedCheck st) = None"
    using assms by (simp add: publicFeedCheck_effect)
  then show ?thesis
    by (simp add: phase3_finish_def allLabels_def summaryCheck_def assms)
qed

section \<open>The loop of serviceCheck over the feeds\<close>

lemma appendFeedURL_panic:
  "feed \<in> set fs \<Longrightarrow> URL feed = None \<Longrightarrow> \<exists>ffeeds. forEach appendFeedURL fs acc = Panic ffeeds"
proof (induction fs arbitrary: acc)
  case Nil
  then show ?case by simp
next
  case (Cons s fs)
  show ?case
  proof (cases "URL s")
    case None
    then show ?thesis by (simp add: appendFeedURL_def)
  next
    case (Some u)
    with Cons.prems have "feed \<in> set fs" by auto
    from Cons.IH [OF this Cons.prems(2)] show ?thesis
      by (simp add: appendFeedURL_def Some)
  qed
qed


lemma ffeeds_loop: 
  "forEach (\<lambda>r. forEach appendFeedURL r) feeds acc = forEach appendFeedURL (concat feeds) acc"
  by (simp add: forEach_concat)

section \<open>The example, evaluated\<close>

lemma TLPLabel_neq:
  "TLPLabelAmber \<noteq> TLPLabelGreen" "TLPLabelGreen \<noteq> TLPLabelAmber"
  "TLPLabelGreen \<noteq> TLPLabelUnlabeled" "TLPLabelGreen \<noteq> TLPLabelWhite"
  "TLPLabelAmber \<noteq> TLPLabelUnlabeled" "TLPLabelAmber \<noteq> TLPLabelWhite"
  "TLPLabelUnlabeled \<noteq> TLPLabelGreen" "TLPLabelWhite \<noteq> TLPLabelGreen"
  "TLPLabelUnlabeled \<noteq> TLPLabelAmber" "TLPLabelWhite \<noteq> TLPLabelAmber"
  using TLPLabel_distinct by auto

lemma example_parse_simps:
  "url_Parse example_env = example_parse"
  "url_ResolveReference example_env = (\<lambda>b u. if example_isAbs u then u else example_dir b @ u)"
  "url_String example_env = (\<lambda>u. u)"
  "util_BaseURL example_env = (\<lambda>u. Inr (example_dir u))"
  "makeAbsolute example_env = (\<lambda>b u. if example_isAbs u then u else b @ ''/'' @ u)"
  "checkTLS example_env = (\<lambda>url p. p)"
  "integrity example_env = (\<lambda>files feedBase p.
     if feedBase = ''https://x.org/broken/''
     then (Some errContinue,
           p\<lparr>badProviderMetadata := topicMessages_error (badProviderMetadata p)
               ''Cannot check the files below %s'' [ArgString feedBase]\<rparr>)
     else (None, fold (example_visit feedBase) files p))"
  by (simp_all add: example_env_def)

lemma example_urls:
  "example_parse ''green.json'' = Inr ''green.json''"
  "example_parse ''amber.json'' = Inr ''amber.json''"
  "example_parse ''https://x.org/pmd.json'' = Inr ''https://x.org/pmd.json''"
  "example_parse ''https://x.org/x.json'' = Inr ''https://x.org/x.json''"
  "example_parse ''https://x.org/y.json'' = Inr ''https://x.org/y.json''"
  "example_isAbs ''green.json'' = False"
  "example_isAbs ''amber.json'' = False"
  "example_isAbs ''https://x.org/x.json'' = True"
  "example_isAbs ''https://x.org/y.json'' = True"
  "example_dir ''https://x.org/pmd.json'' = ''https://x.org/''"
  "example_dir ''https://x.org/green.json'' = ''https://x.org/''"
  "example_dir ''https://x.org/amber.json'' = ''https://x.org/''"
  by (simp_all add: example_parse_def example_isAbs_def example_dir_def)


lemma example_entries:
  "rolieFeedEntries example_env ''https://x.org/green.json'' p = (Inr (Some [example_x, example_y]), p)"
  "rolieFeedEntries example_env ''https://x.org/amber.json'' p = (Inr (Some [example_y]), p)"
  by (simp_all add: example_env_def)


lemma example_base_parse: "url_Parse example_env (pmdURL example_processor) = Inr example_base"
  by (simp add: example_parse_simps example_processor_def example_urls example_base_def)

lemma example_feedRefs:
  "feedRefs [[feed]] = [((0, 0), feed)]"
  by (simp add: feedRefs_def)

lemma example_green_phase1:
  "phase1 example_env example_base [[example_green]]
     (\<lambda>r. None, example_processor\<lparr>badROLIEfeed := topicMessages_use (badROLIEfeed example_processor)\<rparr>) =
   Next (example_green_fetched, example_processor\<lparr>badROLIEfeed := Some []\<rparr>)"
  by (simp add: phase1_def forEachFeed_def phase1_feed_def example_green_def example_base_def
      example_parse_simps example_urls example_entries example_green_fetched_def
      topicMessages_use_def example_processor_def)

lemma example_green_phase2:
  "phase2 example_env example_base example_green_fetched [[example_green]]
     (example_processor\<lparr>badROLIEfeed := Some []\<rparr>) = Next example_green_p2"
  by (simp add: phase2_def forEachFeed_def phase2_feed_def example_green_def example_base_def
      example_parse_simps example_urls example_green_fetched_def tlpLabel_def
      example_visit_def example_x_def example_y_def example_label_def check_def Let_def
      tlpLevel_values keys_def example_processor_def example_green_p2_def example_green_checker_def
      example_leak_def topicMessages_error_def topicMessages_add_def messages_def
      TLPLabel_neq)

lemma example_green_loop:
  "phase3_loop example_env example_base example_green_fetched [[example_green]]
     (phase3_init example_green_p2) =
   Next ((phase3_init example_green_p2)\<lparr>hasGreen := True, hasSummary := {|TLPLabelGreen|}\<rparr>)"
  by (simp add: phase3_loop_def forEachFeed_def phase3_feed_def example_green_def
      example_base_def example_parse_simps example_urls example_green_fetched_def tlpLabel_def
      example_x_def example_y_def Let_def keys_def example_green_p2_def
      example_green_checker_def phase3_init_def listAdvisory_def containsAllKeys_def
      TLPLabel_neq)

lemma example_amber_phase1:
  "phase1 example_env example_base [[example_amber]]
     (\<lambda>r. None, example_processor\<lparr>badROLIEfeed := topicMessages_use (badROLIEfeed example_processor)\<rparr>) =
   Next (example_amber_fetched, example_processor\<lparr>badROLIEfeed := Some []\<rparr>)"
  by (simp add: phase1_def forEachFeed_def phase1_feed_def example_amber_def example_base_def
      example_parse_simps example_urls example_entries example_amber_fetched_def
      topicMessages_use_def example_processor_def)

lemma example_amber_phase2:
  "phase2 example_env example_base example_amber_fetched [[example_amber]]
     (example_processor\<lparr>badROLIEfeed := Some []\<rparr>) = Next example_amber_p2"
  by (simp add: phase2_def forEachFeed_def phase2_feed_def example_amber_def example_base_def
      example_parse_simps example_urls example_amber_fetched_def tlpLabel_def
      example_visit_def example_y_def example_label_def check_def Let_def
      tlpLevel_values keys_def example_processor_def example_amber_p2_def example_amber_checker_def)

lemma example_amber_loop:
  "phase3_loop example_env example_base example_amber_fetched [[example_amber]]
     (phase3_init example_amber_p2) =
   Next ((phase3_init example_amber_p2)\<lparr>hasSummary := {|TLPLabelAmber|}\<rparr>)"
  by (simp add: phase3_loop_def forEachFeed_def phase3_feed_def example_amber_def
      example_base_def example_parse_simps example_urls example_amber_fetched_def tlpLabel_def
      example_y_def Let_def keys_def example_amber_p2_def
      example_amber_checker_def phase3_init_def listAdvisory_def containsAllKeys_def
      TLPLabel_neq)

lemma example_empty:
  "phase1 example_env example_base []
     (\<lambda>r. None, example_processor\<lparr>badROLIEfeed := topicMessages_use (badROLIEfeed example_processor)\<rparr>) =
   Next (\<lambda>r. None, example_processor\<lparr>badROLIEfeed := Some []\<rparr>)"
  "phase2 example_env example_base (\<lambda>r. None) [] (example_processor\<lparr>badROLIEfeed := Some []\<rparr>) =
   Next (example_processor\<lparr>badROLIEfeed := Some []\<rparr>)"
  "phase3_loop example_env example_base (\<lambda>r. None) []
     (phase3_init (example_processor\<lparr>badROLIEfeed := Some []\<rparr>)) =
   Next (phase3_init (example_processor\<lparr>badROLIEfeed := Some []\<rparr>))"
  by (simp_all add: phase1_def phase2_def phase3_loop_def forEachFeed_def topicMessages_use_def
      example_processor_def)

lemma example_audited:
  "audited example_env example_green_fetched (0, 0) example_green"
  "audited example_env example_amber_fetched (0, 0) example_amber"
  by (simp_all add: audited_def example_green_def example_amber_def example_green_fetched_def
      example_amber_fetched_def example_parse_simps example_urls)

lemma example_inventory:
  "inventory example_green_checker TLPLabelAmber = {|''https://x.org/y.json''|}"
  "inventory example_green_checker TLPLabelGreen = {|''https://x.org/x.json''|}"
  by (simp_all add: inventory_def keys_def example_green_checker_def TLPLabel_neq)


lemma example_service_reach:
  "util_BaseURL example_env example_base = Inr ''https://x.org/''"
  "httpClient_Get example_env url p = (Inr example_response, p)"
  "StatusCode example_response = http_StatusOK"
  "LoadROLIEServiceDocument example_env (Body example_response) = Inr example_service"
  by (simp_all add: example_env_def example_base_def example_urls example_response_def
      example_service_def http_StatusOK_def)

lemma example_use:
  "example_processor\<lparr>badROLIEservice := topicMessages_use (badROLIEservice example_processor)\<rparr> =
     example_processor\<lparr>badROLIEservice := Some []\<rparr>"
  by (simp add: topicMessages_use_def example_processor_def)






text \<open>
  The end-to-end scenario of the spec (section 8): the Green feed lists x (Green) and y
  (Amber), the Amber feed lists y. The run returns nil with one diagnostic, the error for
  y in the Green feed: no warning for a label without summary feed, and no error for a
  missing public feed.
\<close>

lemma example_end_to_end:
  "processROLIEFeeds example_env [[example_green, example_amber]] example_processor =
     (Returned None,
      example_processor\<lparr>badROLIEfeed := Some [example_leak],
                        labelChecker := Some example_amber_checker\<rparr>)"
proof -
  have ph1: "phase1 example_env example_base [[example_green, example_amber]]
     (\<lambda>r. None, example_processor\<lparr>badROLIEfeed := topicMessages_use (badROLIEfeed example_processor)\<rparr>) =
     Next ((\<lambda>r. None)((0, 0) := Some [example_x, example_y], (0, 1) := Some [example_y]),
           example_processor\<lparr>badROLIEfeed := Some []\<rparr>)"
    by (simp add: phase1_def forEachFeed_def phase1_feed_def example_green_def example_amber_def
        example_base_def example_parse_simps example_urls example_entries
        topicMessages_use_def example_processor_def)
  have ph2: "phase2 example_env example_base
       ((\<lambda>r. None)((0, 0) := Some [example_x, example_y], (0, 1) := Some [example_y]))
       [[example_green, example_amber]] (example_processor\<lparr>badROLIEfeed := Some []\<rparr>) =
     Next (example_processor\<lparr>badROLIEfeed := Some [example_leak],
                        labelChecker := Some example_amber_checker\<rparr>)"
    by (simp add: phase2_def forEachFeed_def phase2_feed_def example_green_def example_amber_def
        example_base_def example_parse_simps example_urls tlpLabel_def
        example_visit_def example_x_def example_y_def example_label_def check_def Let_def
        tlpLevel_values keys_def example_processor_def example_amber_checker_def
        example_leak_def topicMessages_error_def topicMessages_add_def messages_def
        TLPLabel_neq)
  have ph3: "phase3 example_env example_base
       ((\<lambda>r. None)((0, 0) := Some [example_x, example_y], (0, 1) := Some [example_y]))
       [[example_green, example_amber]]
       (example_processor\<lparr>badROLIEfeed := Some [example_leak],
                        labelChecker := Some example_amber_checker\<rparr>) =
     (Returned None,
      example_processor\<lparr>badROLIEfeed := Some [example_leak],
                        labelChecker := Some example_amber_checker\<rparr>)"
    by (simp add: phase3_def phase3_loop_def forEachFeed_def phase3_feed_def example_green_def
        example_amber_def example_base_def example_parse_simps example_urls tlpLabel_def
        example_x_def example_y_def Let_def keys_def example_processor_def
        example_amber_checker_def phase3_init_def listAdvisory_def containsAllKeys_def
        TLPLabel_neq phase3_finish_def publicFeedCheck_def allLabels_def summaryCheck_def
        fcard_pos)
  show ?thesis
    by (simp only: processROLIEFeeds_def example_base_parse sum.case Let_def ph1 step.case
        prod.case ph2 ph3)
qed

section \<open>The completeness audit\<close>



section \<open>The checks after the loop of phase 3\<close>

text \<open>
  Claim C5. When \<open>processROLIEFeeds\<close> gets past the loop of phase 3, the number of errors
  ``one ROLIE feed with TLP:WHITE, TLP:GREEN or unlabeled must exist'' in the sink
  \<open>badROLIEfeed\<close> grows by one if no audited feed is declared Unlabeled, White or Green, and
  does not grow if one is, whatever other feeds there are.
\<close>

theorem public_feed_error:
  assumes base: "url_Parse env (pmdURL p) = Inr base"
    and ph1: "phase1 env base feeds
        (\<lambda>r. None, p\<lparr>badROLIEfeed := topicMessages_use (badROLIEfeed p)\<rparr>) = Next (fetched, p1)"
    and ph2: "phase2 env base fetched feeds p1 = Next p2"
    and loop: "phase3_loop env base fetched feeds (phase3_init p2) = Next st"
  shows "count_list (messages (badROLIEfeed (snd (processROLIEFeeds env feeds p)))) publicFeedError =
     count_list (messages (badROLIEfeed p2)) publicFeedError +
       (if \<exists>(r, feed) \<in> set (feedRefs feeds). audited env fetched r feed \<and>
              tlpLabel (TLPLabel feed) \<in> {TLPLabelUnlabeled, TLPLabelWhite, TLPLabelGreen}
        then 0 else 1)"
proof -
  have run: "processROLIEFeeds env feeds p = phase3_finish st"
    by (simp add: processROLIEFeeds_def base ph1 ph2 phase3_def loop)
  from loop have "forEach (\<lambda>(r, feed). phase3_feed env base fetched r feed) (feedRefs feeds)
      (phase3_init p2) = Next st"
    by (simp add: phase3_loop_def forEachFeed_feedRefs)
  note inv = phase3_forEach_Next [OF this]
  have flags: "(hasUnlabeled st \<or> hasWhite st \<or> hasGreen st) \<longleftrightarrow>
      (\<exists>(r, feed) \<in> set (feedRefs feeds). audited env fetched r feed \<and>
              tlpLabel (TLPLabel feed) \<in> {TLPLabelUnlabeled, TLPLabelWhite, TLPLabelGreen})"
    using inv by (simp add: phase3_init_def) blast
  have feed: "badROLIEfeed (proc st) = badROLIEfeed p2"
    using inv by (simp add: phase3_init_def)
  show ?thesis
    unfolding run phase3_finish_public feed using flags by simp
qed

text \<open>The theorem on the Green feed alone (no error) and on the Amber feed alone (one).\<close>

theorem public_feed_error_witness:
  "audited example_env example_green_fetched (0, 0) example_green
   \<and> tlpLabel (TLPLabel example_green) = TLPLabelGreen
   \<and> count_list (messages (badROLIEfeed
        (snd (processROLIEFeeds example_env [[example_green]] example_processor)))) publicFeedError = 0
   \<and> audited example_env example_amber_fetched (0, 0) example_amber
   \<and> tlpLabel (TLPLabel example_amber) = TLPLabelAmber
   \<and> count_list (messages (badROLIEfeed
        (snd (processROLIEFeeds example_env [[example_amber]] example_processor)))) publicFeedError = 1"
proof -
  have g: "tlpLabel (TLPLabel example_green) = TLPLabelGreen"
    and a: "tlpLabel (TLPLabel example_amber) = TLPLabelAmber"
    by (simp_all add: tlpLabel_def example_green_def example_amber_def)
  have none: "count_list (messages (badROLIEfeed example_green_p2)) publicFeedError = 0"
    "count_list (messages (badROLIEfeed example_amber_p2)) publicFeedError = 0"
    by (simp_all add: example_green_p2_def example_amber_p2_def messages_def example_leak_def
        publicFeedError_def)
  have c1: "count_list (messages (badROLIEfeed
        (snd (processROLIEFeeds example_env [[example_green]] example_processor)))) publicFeedError = 0"
    using public_feed_error [OF example_base_parse example_green_phase1 example_green_phase2
        example_green_loop]
    by (simp add: none example_feedRefs example_audited g)
  have c2: "count_list (messages (badROLIEfeed
        (snd (processROLIEFeeds example_env [[example_amber]] example_processor)))) publicFeedError = 1"
    using public_feed_error [OF example_base_parse example_amber_phase1 example_amber_phase2
        example_amber_loop]
    by (simp add: none example_feedRefs example_audited a TLPLabel_neq)
  from example_audited g a c1 c2 show ?thesis by simp
qed

text \<open>
  Claim C6. When \<open>processROLIEFeeds\<close> gets past the loop of phase 3, then for each of the
  five labels the number of warnings ``no accessible listed feed covering all advisories''
  for that label grows by one if the checker's inventory for the label is not empty and
  the label is not in \<open>hasSummary\<close>, and does not grow otherwise. The label is in
  \<open>hasSummary\<close> exactly when an audited feed declared with it lists the whole inventory.
  With a checker the function then returns nil. When the processor holds no checker
  nothing is recorded, no warning is added, and the function panics at the first label.
\<close>

theorem summary_warnings:
  assumes base: "url_Parse env (pmdURL p) = Inr base"
    and ph1: "phase1 env base feeds
        (\<lambda>r. None, p\<lparr>badROLIEfeed := topicMessages_use (badROLIEfeed p)\<rparr>) = Next (fetched, p1)"
    and ph2: "phase2 env base fetched feeds p1 = Next p2"
    and loop: "phase3_loop env base fetched feeds (phase3_init p2) = Next st"
    and label: "label \<in> set allLabels"
  shows "count_list (messages (badROLIEfeed (snd (processROLIEFeeds env feeds p))))
         (summaryWarning label) =
       count_list (messages (badROLIEfeed p2)) (summaryWarning label) +
         (case labelChecker p2 of
            None \<Rightarrow> 0
          | Some ca \<Rightarrow> if inventory ca label \<noteq> {||} \<and> label |\<notin>| hasSummary st then 1 else 0)
     \<and> (label |\<in>| hasSummary st \<longleftrightarrow>
         (\<exists>(r, feed) \<in> set (feedRefs feeds). audited env fetched r feed \<and>
            tlpLabel (TLPLabel feed) = label \<and>
            (\<exists>ca. labelChecker p2 = Some ca \<and>
               inventory ca label |\<subseteq>| feedListing env base fetched r feed)))
     \<and> fst (processROLIEFeeds env feeds p) =
         (case labelChecker p2 of None \<Rightarrow> Panicked | Some ca \<Rightarrow> Returned None)"
proof -
  have run: "processROLIEFeeds env feeds p = phase3_finish st"
    by (simp add: processROLIEFeeds_def base ph1 ph2 phase3_def loop)
  from loop have "forEach (\<lambda>(r, feed). phase3_feed env base fetched r feed) (feedRefs feeds)
      (phase3_init p2) = Next st"
    by (simp add: phase3_loop_def forEachFeed_feedRefs)
  note inv = phase3_forEach_Next [OF this]
  have c: "labelChecker (proc st) = labelChecker p2"
    using inv by (simp add: phase3_init_def)
  have feed: "badROLIEfeed (proc st) = badROLIEfeed p2"
    using inv by (simp add: phase3_init_def)
  have summary: "l |\<in>| hasSummary st \<longleftrightarrow>
         (\<exists>(r, feed) \<in> set (feedRefs feeds). audited env fetched r feed \<and>
            tlpLabel (TLPLabel feed) = l \<and>
            (\<exists>ca. labelChecker p2 = Some ca \<and>
               inventory ca l |\<subseteq>| feedListing env base fetched r feed))" for l
    using inv by (simp add: phase3_init_def)
  have result: "fst (phase3_finish st) =
      (case labelChecker p2 of None \<Rightarrow> Panicked | Some ca \<Rightarrow> Returned None)"
  proof (cases "labelChecker p2")
    case None
    then have "hasSummary st = {||}"
      using summary by auto
    with None c show ?thesis
      by (simp add: phase3_finish_panic)
  next
    case (Some ca)
    with c have "labelChecker (proc st) = Some ca" by simp
    from phase3_finish_summary [OF this label] Some show ?thesis by simp
  qed
  show ?thesis
    unfolding run using phase3_finish_warnings [OF label, of st] c feed summary [of label] result
    by simp
qed

text \<open>
  The theorem on the Green feed alone, which lists y of label Amber (a warning for Amber,
  none for Green), and on no feed at all with no checker.
\<close>

theorem summary_warnings_witness:
  "labelChecker example_green_p2 = Some example_green_checker
   \<and> TLPLabelAmber \<in> set allLabels \<and> TLPLabelGreen \<in> set allLabels
   \<and> inventory example_green_checker TLPLabelAmber \<noteq> {||}
   \<and> inventory example_green_checker TLPLabelGreen \<noteq> {||}
   \<and> fst (processROLIEFeeds example_env [[example_green]] example_processor) = Returned None
   \<and> count_list (messages (badROLIEfeed
        (snd (processROLIEFeeds example_env [[example_green]] example_processor))))
        (summaryWarning TLPLabelAmber) = 1
   \<and> count_list (messages (badROLIEfeed
        (snd (processROLIEFeeds example_env [[example_green]] example_processor))))
        (summaryWarning TLPLabelGreen) = 0
   \<and> labelChecker (example_processor\<lparr>badROLIEfeed := Some []\<rparr>) = None
   \<and> fst (processROLIEFeeds example_env [] example_processor) = Panicked
   \<and> count_list (messages (badROLIEfeed
        (snd (processROLIEFeeds example_env [] example_processor))))
        (summaryWarning TLPLabelAmber) = 0"
proof -
  have checker: "labelChecker example_green_p2 = Some example_green_checker"
    by (simp add: example_green_p2_def)
  have nochecker: "labelChecker (example_processor\<lparr>badROLIEfeed := Some []\<rparr>) = None"
    by (simp add: example_processor_def)
  have la: "TLPLabelAmber \<in> set allLabels" and lg: "TLPLabelGreen \<in> set allLabels"
    by (simp_all add: allLabels_def)
  have none: "count_list (messages (badROLIEfeed example_green_p2)) (summaryWarning l) = 0"
    "count_list (messages (badROLIEfeed (example_processor\<lparr>badROLIEfeed := Some []\<rparr>)))
       (summaryWarning l) = 0" for l
    by (simp_all add: example_green_p2_def messages_def example_leak_def summaryWarning_def)
  have summary: "hasSummary ((phase3_init example_green_p2)
      \<lparr>hasGreen := True, hasSummary := {|TLPLabelGreen|}\<rparr>) = {|TLPLabelGreen|}"
    by simp
  note amber = summary_warnings [OF example_base_parse example_green_phase1 example_green_phase2
        example_green_loop la]
  note green = summary_warnings [OF example_base_parse example_green_phase1 example_green_phase2
        example_green_loop lg]
  note empty = summary_warnings [OF example_base_parse example_empty la]
  have r: "fst (processROLIEFeeds example_env [[example_green]] example_processor) = Returned None"
    using amber [THEN conjunct2, THEN conjunct2] by (simp add: checker)
  have c1: "count_list (messages (badROLIEfeed
        (snd (processROLIEFeeds example_env [[example_green]] example_processor))))
        (summaryWarning TLPLabelAmber) = 1"
    using amber [THEN conjunct1]
    by (simp add: none summary example_inventory TLPLabel_neq checker)
  have c2: "count_list (messages (badROLIEfeed
        (snd (processROLIEFeeds example_env [[example_green]] example_processor))))
        (summaryWarning TLPLabelGreen) = 0"
    using green [THEN conjunct1]
    by (simp add: none summary example_inventory checker)
  have r0: "fst (processROLIEFeeds example_env [] example_processor) = Panicked"
    using empty [THEN conjunct2, THEN conjunct2] by (simp add: nochecker)
  have c0: "count_list (messages (badROLIEfeed
        (snd (processROLIEFeeds example_env [] example_processor))))
        (summaryWarning TLPLabelAmber) = 0"
    using empty [THEN conjunct1] by (simp add: nochecker messages_def)
  from checker la lg r c1 c2 nochecker r0 c0 show ?thesis
    by (simp add: example_inventory)
qed

section \<open>Which URLs are compared\<close>




section \<open>Recoverable and fatal failures\<close>



section \<open>A feed without URL\<close>

text \<open>
  Claim C10. When \<open>serviceCheck\<close> reaches the loop over the provider metadata's feeds (the
  provider metadata's URL parses and has a base, the service document is fetched with
  status 200 and loads) and some feed has a nil URL, \<open>serviceCheck\<close> panics. In each of the
  three phases of \<open>processROLIEFeeds\<close> the pass for such a feed does nothing.
\<close>

theorem serviceCheck_nil_URL:
  assumes pmd: "url_Parse env (pmdURL p) = Inr pmd"
    and baseURL: "util_BaseURL env pmd = Inr baseURL"
    and get: "httpClient_Get env (baseURL @ ''service.json'')
        (p\<lparr>badROLIEservice := topicMessages_use (badROLIEservice p)\<rparr>) = (Inr res, p1)"
    and ok: "StatusCode res = http_StatusOK"
    and load: "LoadROLIEServiceDocument env (Body res) = Inr rolieService"
    and feed: "feed \<in> set (concat feeds)"
    and nil: "URL feed = None"
  shows "serviceCheck env feeds p = (Panicked, p1)
    \<and> phase1_feed env base r feed s = Next s
    \<and> phase2_feed env base fetched r feed q = Next q
    \<and> phase3_feed env base fetched r feed st = Next st"
proof -
  from appendFeedURL_panic [OF feed nil] obtain ffeeds where
    "forEach (\<lambda>r. forEach appendFeedURL r) feeds [] = Panic ffeeds"
    by (auto simp: ffeeds_loop)
  then have "serviceCheck env feeds p = (Panicked, p1)"
    by (simp add: serviceCheck_def pmd baseURL get ok load Let_def)
  moreover have "phase1_feed env base r feed s = Next s"
    by (cases s) (simp add: phase1_feed_def nil)
  moreover have "phase2_feed env base fetched r feed q = Next q"
    by (simp add: phase2_feed_def nil)
  moreover have "phase3_feed env base fetched r feed st = Next st"
    by (simp add: phase3_feed_def nil)
  ultimately show ?thesis by simp
qed

text \<open>The theorem on the Green feed followed by a feed without URL.\<close>

theorem serviceCheck_nil_URL_witness:
  "example_nil \<in> set (concat [[example_green, example_nil]])
   \<and> URL example_nil = None
   \<and> serviceCheck example_env [[example_green, example_nil]] example_processor =
       (Panicked, example_processor\<lparr>badROLIEservice := Some []\<rparr>)
   \<and> phase1_feed example_env example_base (0, 1) example_nil (\<lambda>r. None, example_processor) =
       Next (\<lambda>r. None, example_processor)
   \<and> phase2_feed example_env example_base (\<lambda>r. None) (0, 1) example_nil example_processor =
       Next example_processor
   \<and> phase3_feed example_env example_base (\<lambda>r. None) (0, 1) example_nil (phase3_init example_processor) =
       Next (phase3_init example_processor)"
proof -
  have feed: "example_nil \<in> set (concat [[example_green, example_nil]])"
    by simp
  have nil: "URL example_nil = None"
    by (simp add: example_nil_def)
  from feed nil
    serviceCheck_nil_URL [OF example_base_parse example_service_reach feed nil,
      where base = example_base and r = "(0, 1)" and s = "(\<lambda>r. None, example_processor)"
        and fetched = "\<lambda>r. None" and q = example_processor and st = "phase3_init example_processor"]
  show ?thesis by (simp add: example_use)
qed

end
